theory Spec2Isabelle
  imports Complex_Main "HOL-Library.Sublist" "HOL-Library.Multiset"
begin

section \<open>Python values used by the price-list analyzer\<close>

text \<open>
  The program is one Python class, \<^verbatim>\<open>PriceAnalyzer\<close>, with the methods
  \<^verbatim>\<open>load_prices\<close>, \<^verbatim>\<open>find_text\<close>, \<^verbatim>\<open>export_to_html\<close> and
  \<^verbatim>\<open>interactive_search\<close>. A Python \<^verbatim>\<open>str\<close> is a sequence of Unicode code
  points, so it is modelled as a list of natural numbers; the product names and the
  column headers of the price lists are Cyrillic. ASCII literals of the source are written
  with \<open>ascii\<close>; Cyrillic literals are written as code points, with a transliteration
  beside them. The model covers \<^verbatim>\<open>__init__\<close>, \<^verbatim>\<open>load_prices\<close> and
  \<^verbatim>\<open>find_text\<close>; the other two methods only read the catalog and print it.
\<close>

type_synonym ustr = "nat list"

definition ascii :: "string \<Rightarrow> ustr" where
  "ascii s = map of_char s"

text \<open>
  The exceptions that the loader can meet. \<open>OSError\<close> stands for every failure of
  \<^verbatim>\<open>os.listdir\<close> and \<^verbatim>\<open>open\<close> (not found, permission, not a directory).
\<close>

datatype exn = KeyError | ValueError | TypeError | AttributeError | ZeroDivisionError | OSError

definition try_bind :: "exn + 'a \<Rightarrow> ('a \<Rightarrow> exn + 'b) \<Rightarrow> exn + 'b" where
  "try_bind m f = (case m of Inl e \<Rightarrow> Inl e | Inr v \<Rightarrow> f v)"

subsection \<open>\<^verbatim>\<open>str.lower\<close>, \<^verbatim>\<open>str.strip\<close> and the \<^verbatim>\<open>in\<close> operator\<close>

text \<open>
  \<^verbatim>\<open>str.lower()\<close> replaces each code point by its full lower-case mapping in the
  Unicode character database, which the interpreter holds in tables. The tables below are
  those of Unicode 14.0.0, the database of CPython 3.11. \<open>lower_ranges\<close> lists the code
  points whose lower case is one other code point: an entry \<open>(lo, hi, step, target)\<close>
  stands for the code points \<open>lo\<close>, \<open>lo + step\<close>, and so on up to \<open>hi\<close>, and maps \<open>lo\<close>
  to \<open>target\<close>, \<open>lo + step\<close> to \<open>target + step\<close>, and so on. U+0130 maps to the two
  code points U+0069 U+0307, and every code point not listed maps to itself.
\<close>

definition lower_ranges :: "(nat \<times> nat \<times> nat \<times> nat) list" where
  "lower_ranges =
    [(65, 90, 1, 97), (192, 214, 1, 224), (216, 222, 1, 248), (256, 302, 2, 257),
     (306, 310, 2, 307), (313, 327, 2, 314), (330, 374, 2, 331), (376, 376, 1, 255),
     (377, 381, 2, 378), (385, 385, 1, 595), (386, 388, 2, 387), (390, 390, 1, 596),
     (391, 391, 1, 392), (393, 394, 1, 598), (395, 395, 1, 396), (398, 398, 1, 477),
     (399, 399, 1, 601), (400, 400, 1, 603), (401, 401, 1, 402), (403, 403, 1, 608),
     (404, 404, 1, 611), (406, 406, 1, 617), (407, 407, 1, 616), (408, 408, 1, 409),
     (412, 412, 1, 623), (413, 413, 1, 626), (415, 415, 1, 629), (416, 420, 2, 417),
     (422, 422, 1, 640), (423, 423, 1, 424), (425, 425, 1, 643), (428, 428, 1, 429),
     (430, 430, 1, 648), (431, 431, 1, 432), (433, 434, 1, 650), (435, 437, 2, 436),
     (439, 439, 1, 658), (440, 440, 1, 441), (444, 444, 1, 445), (452, 452, 1, 454),
     (453, 453, 1, 454), (455, 455, 1, 457), (456, 456, 1, 457), (458, 458, 1, 460),
     (459, 475, 2, 460), (478, 494, 2, 479), (497, 497, 1, 499), (498, 500, 2, 499),
     (502, 502, 1, 405), (503, 503, 1, 447), (504, 542, 2, 505), (544, 544, 1, 414),
     (546, 562, 2, 547), (570, 570, 1, 11365), (571, 571, 1, 572), (573, 573, 1, 410),
     (574, 574, 1, 11366), (577, 577, 1, 578), (579, 579, 1, 384), (580, 580, 1, 649),
     (581, 581, 1, 652), (582, 590, 2, 583), (880, 882, 2, 881), (886, 886, 1, 887),
     (895, 895, 1, 1011), (902, 902, 1, 940), (904, 906, 1, 941), (908, 908, 1, 972),
     (910, 911, 1, 973), (913, 929, 1, 945), (931, 939, 1, 963), (975, 975, 1, 983),
     (984, 1006, 2, 985), (1012, 1012, 1, 952), (1015, 1015, 1, 1016), (1017, 1017, 1, 1010),
     (1018, 1018, 1, 1019), (1021, 1023, 1, 891), (1024, 1039, 1, 1104), (1040, 1071, 1, 1072),
     (1120, 1152, 2, 1121), (1162, 1214, 2, 1163), (1216, 1216, 1, 1231), (1217, 1229, 2, 1218),
     (1232, 1326, 2, 1233), (1329, 1366, 1, 1377), (4256, 4293, 1, 11520),
     (4295, 4295, 1, 11559), (4301, 4301, 1, 11565), (5024, 5103, 1, 43888),
     (5104, 5109, 1, 5112), (7312, 7354, 1, 4304), (7357, 7359, 1, 4349), (7680, 7828, 2, 7681),
     (7838, 7838, 1, 223), (7840, 7934, 2, 7841), (7944, 7951, 1, 7936), (7960, 7965, 1, 7952),
     (7976, 7983, 1, 7968), (7992, 7999, 1, 7984), (8008, 8013, 1, 8000), (8025, 8031, 2, 8017),
     (8040, 8047, 1, 8032), (8072, 8079, 1, 8064), (8088, 8095, 1, 8080), (8104, 8111, 1, 8096),
     (8120, 8121, 1, 8112), (8122, 8123, 1, 8048), (8124, 8124, 1, 8115), (8136, 8139, 1, 8050),
     (8140, 8140, 1, 8131), (8152, 8153, 1, 8144), (8154, 8155, 1, 8054), (8168, 8169, 1, 8160),
     (8170, 8171, 1, 8058), (8172, 8172, 1, 8165), (8184, 8185, 1, 8056), (8186, 8187, 1, 8060),
     (8188, 8188, 1, 8179), (8486, 8486, 1, 969), (8490, 8490, 1, 107), (8491, 8491, 1, 229),
     (8498, 8498, 1, 8526), (8544, 8559, 1, 8560), (8579, 8579, 1, 8580), (9398, 9423, 1, 9424),
     (11264, 11311, 1, 11312), (11360, 11360, 1, 11361), (11362, 11362, 1, 619),
     (11363, 11363, 1, 7549), (11364, 11364, 1, 637), (11367, 11371, 2, 11368),
     (11373, 11373, 1, 593), (11374, 11374, 1, 625), (11375, 11375, 1, 592),
     (11376, 11376, 1, 594), (11378, 11378, 1, 11379), (11381, 11381, 1, 11382),
     (11390, 11391, 1, 575), (11392, 11490, 2, 11393), (11499, 11501, 2, 11500),
     (11506, 11506, 1, 11507), (42560, 42604, 2, 42561), (42624, 42650, 2, 42625),
     (42786, 42798, 2, 42787), (42802, 42862, 2, 42803), (42873, 42875, 2, 42874),
     (42877, 42877, 1, 7545), (42878, 42886, 2, 42879), (42891, 42891, 1, 42892),
     (42893, 42893, 1, 613), (42896, 42898, 2, 42897), (42902, 42920, 2, 42903),
     (42922, 42922, 1, 614), (42923, 42923, 1, 604), (42924, 42924, 1, 609),
     (42925, 42925, 1, 620), (42926, 42926, 1, 618), (42928, 42928, 1, 670),
     (42929, 42929, 1, 647), (42930, 42930, 1, 669), (42931, 42931, 1, 43859),
     (42932, 42946, 2, 42933), (42948, 42948, 1, 42900), (42949, 42949, 1, 642),
     (42950, 42950, 1, 7566), (42951, 42953, 2, 42952), (42960, 42960, 1, 42961),
     (42966, 42968, 2, 42967), (42997, 42997, 1, 42998), (65313, 65338, 1, 65345),
     (66560, 66599, 1, 66600), (66736, 66771, 1, 66776), (66928, 66964, 2, 66967),
     (66929, 66937, 2, 66968), (66941, 66953, 2, 66980), (66957, 66961, 2, 66996),
     (66965, 66965, 1, 67004), (68736, 68786, 1, 68800), (71840, 71871, 1, 71872),
     (93760, 93791, 1, 93792), (125184, 125217, 1, 125218)]"

definition to_lower_full :: "nat \<Rightarrow> ustr" where
  "to_lower_full c =
     (if c = 304 then [105, 775]
      else
        case find (\<lambda>(lo, hi, step, target). lo \<le> c \<and> c \<le> hi \<and> (c - lo) mod step = 0)
               lower_ranges of
          None \<Rightarrow> [c]
        | Some (lo, hi, step, target) \<Rightarrow> [target + (c - lo)])"

text \<open>
  The code points with the property Cased and those with the property Case_Ignorable, as
  inclusive ranges.
\<close>

definition cased_ranges :: "(nat \<times> nat) list" where
  "cased_ranges =
    [(65, 90), (97, 122), (170, 170), (181, 181), (186, 186), (192, 214), (216, 246),
     (248, 442), (444, 447), (452, 659), (661, 696), (704, 705), (736, 740), (837, 837),
     (880, 883), (886, 887), (890, 893), (895, 895), (902, 902), (904, 906), (908, 908),
     (910, 929), (931, 1013), (1015, 1153), (1162, 1327), (1329, 1366), (1376, 1416),
     (4256, 4293), (4295, 4295), (4301, 4301), (4304, 4346), (4349, 4351), (5024, 5109),
     (5112, 5117), (7296, 7304), (7312, 7354), (7357, 7359), (7424, 7615), (7680, 7957),
     (7960, 7965), (7968, 8005), (8008, 8013), (8016, 8023), (8025, 8025), (8027, 8027),
     (8029, 8029), (8031, 8061), (8064, 8116), (8118, 8124), (8126, 8126), (8130, 8132),
     (8134, 8140), (8144, 8147), (8150, 8155), (8160, 8172), (8178, 8180), (8182, 8188),
     (8305, 8305), (8319, 8319), (8336, 8348), (8450, 8450), (8455, 8455), (8458, 8467),
     (8469, 8469), (8473, 8477), (8484, 8484), (8486, 8486), (8488, 8488), (8490, 8493),
     (8495, 8500), (8505, 8505), (8508, 8511), (8517, 8521), (8526, 8526), (8544, 8575),
     (8579, 8580), (9398, 9449), (11264, 11492), (11499, 11502), (11506, 11507), (11520, 11557),
     (11559, 11559), (11565, 11565), (42560, 42605), (42624, 42653), (42786, 42887),
     (42891, 42894), (42896, 42954), (42960, 42961), (42963, 42963), (42965, 42969),
     (42997, 42998), (43000, 43002), (43824, 43866), (43868, 43880), (43888, 43967),
     (64256, 64262), (64275, 64279), (65313, 65338), (65345, 65370), (66560, 66639),
     (66736, 66771), (66776, 66811), (66928, 66938), (66940, 66954), (66956, 66962),
     (66964, 66965), (66967, 66977), (66979, 66993), (66995, 67001), (67003, 67004),
     (67456, 67456), (67459, 67461), (67463, 67504), (67506, 67514), (68736, 68786),
     (68800, 68850), (71840, 71903), (93760, 93823), (119808, 119892), (119894, 119964),
     (119966, 119967), (119970, 119970), (119973, 119974), (119977, 119980), (119982, 119993),
     (119995, 119995), (119997, 120003), (120005, 120069), (120071, 120074), (120077, 120084),
     (120086, 120092), (120094, 120121), (120123, 120126), (120128, 120132), (120134, 120134),
     (120138, 120144), (120146, 120485), (120488, 120512), (120514, 120538), (120540, 120570),
     (120572, 120596), (120598, 120628), (120630, 120654), (120656, 120686), (120688, 120712),
     (120714, 120744), (120746, 120770), (120772, 120779), (122624, 122633), (122635, 122654),
     (125184, 125251), (127280, 127305), (127312, 127337), (127344, 127369)]"

definition is_cased :: "nat \<Rightarrow> bool" where
  "is_cased c = list_ex (\<lambda>(lo, hi). lo \<le> c \<and> c \<le> hi) cased_ranges"

definition case_ignorable_ranges :: "(nat \<times> nat) list" where
  "case_ignorable_ranges =
    [(39, 39), (46, 46), (58, 58), (94, 94), (96, 96), (168, 168), (173, 173), (175, 175),
     (180, 180), (183, 184), (688, 879), (884, 885), (890, 890), (900, 901), (903, 903),
     (1155, 1161), (1369, 1369), (1375, 1375), (1425, 1469), (1471, 1471), (1473, 1474),
     (1476, 1477), (1479, 1479), (1524, 1524), (1536, 1541), (1552, 1562), (1564, 1564),
     (1600, 1600), (1611, 1631), (1648, 1648), (1750, 1757), (1759, 1768), (1770, 1773),
     (1807, 1807), (1809, 1809), (1840, 1866), (1958, 1968), (2027, 2037), (2042, 2042),
     (2045, 2045), (2070, 2093), (2137, 2139), (2184, 2184), (2192, 2193), (2200, 2207),
     (2249, 2306), (2362, 2362), (2364, 2364), (2369, 2376), (2381, 2381), (2385, 2391),
     (2402, 2403), (2417, 2417), (2433, 2433), (2492, 2492), (2497, 2500), (2509, 2509),
     (2530, 2531), (2558, 2558), (2561, 2562), (2620, 2620), (2625, 2626), (2631, 2632),
     (2635, 2637), (2641, 2641), (2672, 2673), (2677, 2677), (2689, 2690), (2748, 2748),
     (2753, 2757), (2759, 2760), (2765, 2765), (2786, 2787), (2810, 2815), (2817, 2817),
     (2876, 2876), (2879, 2879), (2881, 2884), (2893, 2893), (2901, 2902), (2914, 2915),
     (2946, 2946), (3008, 3008), (3021, 3021), (3072, 3072), (3076, 3076), (3132, 3132),
     (3134, 3136), (3142, 3144), (3146, 3149), (3157, 3158), (3170, 3171), (3201, 3201),
     (3260, 3260), (3263, 3263), (3270, 3270), (3276, 3277), (3298, 3299), (3328, 3329),
     (3387, 3388), (3393, 3396), (3405, 3405), (3426, 3427), (3457, 3457), (3530, 3530),
     (3538, 3540), (3542, 3542), (3633, 3633), (3636, 3642), (3654, 3662), (3761, 3761),
     (3764, 3772), (3782, 3782), (3784, 3789), (3864, 3865), (3893, 3893), (3895, 3895),
     (3897, 3897), (3953, 3966), (3968, 3972), (3974, 3975), (3981, 3991), (3993, 4028),
     (4038, 4038), (4141, 4144), (4146, 4151), (4153, 4154), (4157, 4158), (4184, 4185),
     (4190, 4192), (4209, 4212), (4226, 4226), (4229, 4230), (4237, 4237), (4253, 4253),
     (4348, 4348), (4957, 4959), (5906, 5908), (5938, 5939), (5970, 5971), (6002, 6003),
     (6068, 6069), (6071, 6077), (6086, 6086), (6089, 6099), (6103, 6103), (6109, 6109),
     (6155, 6159), (6211, 6211), (6277, 6278), (6313, 6313), (6432, 6434), (6439, 6440),
     (6450, 6450), (6457, 6459), (6679, 6680), (6683, 6683), (6742, 6742), (6744, 6750),
     (6752, 6752), (6754, 6754), (6757, 6764), (6771, 6780), (6783, 6783), (6823, 6823),
     (6832, 6862), (6912, 6915), (6964, 6964), (6966, 6970), (6972, 6972), (6978, 6978),
     (7019, 7027), (7040, 7041), (7074, 7077), (7080, 7081), (7083, 7085), (7142, 7142),
     (7144, 7145), (7149, 7149), (7151, 7153), (7212, 7219), (7222, 7223), (7288, 7293),
     (7376, 7378), (7380, 7392), (7394, 7400), (7405, 7405), (7412, 7412), (7416, 7417),
     (7468, 7530), (7544, 7544), (7579, 7679), (8125, 8125), (8127, 8129), (8141, 8143),
     (8157, 8159), (8173, 8175), (8189, 8190), (8203, 8207), (8216, 8217), (8228, 8228),
     (8231, 8231), (8234, 8238), (8288, 8292), (8294, 8303), (8305, 8305), (8319, 8319),
     (8336, 8348), (8400, 8432), (11388, 11389), (11503, 11505), (11631, 11631), (11647, 11647),
     (11744, 11775), (11823, 11823), (12293, 12293), (12330, 12333), (12337, 12341),
     (12347, 12347), (12441, 12446), (12540, 12542), (40981, 40981), (42232, 42237),
     (42508, 42508), (42607, 42610), (42612, 42621), (42623, 42623), (42652, 42655),
     (42736, 42737), (42752, 42785), (42864, 42864), (42888, 42890), (42994, 42996),
     (43000, 43001), (43010, 43010), (43014, 43014), (43019, 43019), (43045, 43046),
     (43052, 43052), (43204, 43205), (43232, 43249), (43263, 43263), (43302, 43309),
     (43335, 43345), (43392, 43394), (43443, 43443), (43446, 43449), (43452, 43453),
     (43471, 43471), (43493, 43494), (43561, 43566), (43569, 43570), (43573, 43574),
     (43587, 43587), (43596, 43596), (43632, 43632), (43644, 43644), (43696, 43696),
     (43698, 43700), (43703, 43704), (43710, 43711), (43713, 43713), (43741, 43741),
     (43756, 43757), (43763, 43764), (43766, 43766), (43867, 43871), (43881, 43883),
     (44005, 44005), (44008, 44008), (44013, 44013), (64286, 64286), (64434, 64450),
     (65024, 65039), (65043, 65043), (65056, 65071), (65106, 65106), (65109, 65109),
     (65279, 65279), (65287, 65287), (65294, 65294), (65306, 65306), (65342, 65342),
     (65344, 65344), (65392, 65392), (65438, 65439), (65507, 65507), (65529, 65531),
     (66045, 66045), (66272, 66272), (66422, 66426), (67456, 67461), (67463, 67504),
     (67506, 67514), (68097, 68099), (68101, 68102), (68108, 68111), (68152, 68154),
     (68159, 68159), (68325, 68326), (68900, 68903), (69291, 69292), (69446, 69456),
     (69506, 69509), (69633, 69633), (69688, 69702), (69744, 69744), (69747, 69748),
     (69759, 69761), (69811, 69814), (69817, 69818), (69821, 69821), (69826, 69826),
     (69837, 69837), (69888, 69890), (69927, 69931), (69933, 69940), (70003, 70003),
     (70016, 70017), (70070, 70078), (70089, 70092), (70095, 70095), (70191, 70193),
     (70196, 70196), (70198, 70199), (70206, 70206), (70367, 70367), (70371, 70378),
     (70400, 70401), (70459, 70460), (70464, 70464), (70502, 70508), (70512, 70516),
     (70712, 70719), (70722, 70724), (70726, 70726), (70750, 70750), (70835, 70840),
     (70842, 70842), (70847, 70848), (70850, 70851), (71090, 71093), (71100, 71101),
     (71103, 71104), (71132, 71133), (71219, 71226), (71229, 71229), (71231, 71232),
     (71339, 71339), (71341, 71341), (71344, 71349), (71351, 71351), (71453, 71455),
     (71458, 71461), (71463, 71467), (71727, 71735), (71737, 71738), (71995, 71996),
     (71998, 71998), (72003, 72003), (72148, 72151), (72154, 72155), (72160, 72160),
     (72193, 72202), (72243, 72248), (72251, 72254), (72263, 72263), (72273, 72278),
     (72281, 72283), (72330, 72342), (72344, 72345), (72752, 72758), (72760, 72765),
     (72767, 72767), (72850, 72871), (72874, 72880), (72882, 72883), (72885, 72886),
     (73009, 73014), (73018, 73018), (73020, 73021), (73023, 73029), (73031, 73031),
     (73104, 73105), (73109, 73109), (73111, 73111), (73459, 73460), (78896, 78904),
     (92912, 92916), (92976, 92982), (92992, 92995), (94031, 94031), (94095, 94111),
     (94176, 94177), (94179, 94180), (110576, 110579), (110581, 110587), (110589, 110590),
     (113821, 113822), (113824, 113827), (118528, 118573), (118576, 118598), (119143, 119145),
     (119155, 119170), (119173, 119179), (119210, 119213), (119362, 119364), (121344, 121398),
     (121403, 121452), (121461, 121461), (121476, 121476), (121499, 121503), (121505, 121519),
     (122880, 122886), (122888, 122904), (122907, 122913), (122915, 122916), (122918, 122922),
     (123184, 123197), (123566, 123566), (123628, 123631), (125136, 125142), (125252, 125259),
     (127995, 127999), (917505, 917505), (917536, 917631), (917760, 917999)]"

definition is_case_ignorable :: "nat \<Rightarrow> bool" where
  "is_case_ignorable c = list_ex (\<lambda>(lo, hi). lo \<le> c \<and> c \<le> hi) case_ignorable_ranges"

text \<open>
  The capital sigma U+03A3 is the one code point whose lower case depends on its place in
  the string. It becomes the final sigma U+03C2 when the nearest code point before it that
  is not case-ignorable is cased and the nearest code point after it that is not
  case-ignorable, if there is one, is not cased; otherwise it becomes the sigma U+03C3.
  \<open>left\<close> and \<open>right\<close> are the parts of the string before and after the code point.
\<close>

definition final_sigma :: "ustr \<Rightarrow> ustr \<Rightarrow> bool" where
  "final_sigma left right =
     ((case dropWhile is_case_ignorable (rev left) of [] \<Rightarrow> False | c # _ \<Rightarrow> is_cased c) \<and>
      (case dropWhile is_case_ignorable right of [] \<Rightarrow> True | c # _ \<Rightarrow> \<not> is_cased c))"

definition lower_ucs4 :: "ustr \<Rightarrow> nat \<Rightarrow> ustr \<Rightarrow> ustr" where
  "lower_ucs4 left c right =
     (if c = 931 then [if final_sigma left right then 962 else 963] else to_lower_full c)"

fun do_lower :: "ustr \<Rightarrow> ustr \<Rightarrow> ustr" where
  "do_lower left [] = []"
| "do_lower left (c # right) = lower_ucs4 left c right @ do_lower (left @ [c]) right"

definition py_lower :: "ustr \<Rightarrow> ustr" where
  "py_lower s = do_lower [] s"

text \<open>The code points for which \<^verbatim>\<open>str.isspace()\<close> holds.\<close>

definition isspace :: "nat \<Rightarrow> bool" where
  "isspace c =
     ((9 \<le> c \<and> c \<le> 13) \<or> (28 \<le> c \<and> c \<le> 32) \<or> c = 133 \<or> c = 160 \<or> c = 5760 \<or>
      (8192 \<le> c \<and> c \<le> 8202) \<or> c = 8232 \<or> c = 8233 \<or> c = 8239 \<or> c = 8287 \<or> c = 12288)"

definition py_strip :: "ustr \<Rightarrow> ustr" where
  "py_strip s = rev (dropWhile isspace (rev (dropWhile isspace s)))"

text \<open>\<open>str_in q s\<close> is \<^verbatim>\<open>q in s\<close>: some suffix of \<open>s\<close> starts with \<open>q\<close>.\<close>

primrec str_in :: "ustr \<Rightarrow> ustr \<Rightarrow> bool" where
  "str_in q [] = (q = [])"
| "str_in q (c # s) = (prefix q (c # s) \<or> str_in q s)"

subsection \<open>\<^verbatim>\<open>float\<close>\<close>

text \<open>
  A Python \<^verbatim>\<open>float\<close> is an IEEE 754 binary64 number. A finite one is represented by
  the rational it denotes (the two zeros are identified: they compare equal and both
  raise as a divisor), and every operation rounds its exact result to the nearest
  binary64 value, ties to even, overflowing to an infinity.
\<close>

datatype pyfloat = Finite rat | PInf | NInf | NaN

function bit_length :: "int \<Rightarrow> int" where
  "bit_length n = (if n \<le> 0 then 0 else 1 + bit_length (n div 2))"
  by pat_completeness auto
termination
  by (relation "measure nat") auto

declare bit_length.simps [simp del]

definition floor_log2 :: "rat \<Rightarrow> int" where
  "floor_log2 q =
     (let (n, d) = quotient_of q; k = bit_length n - bit_length d
      in if power_int 2 k \<le> q then k else k - 1)"

definition round_half_even :: "rat \<Rightarrow> int" where
  "round_half_even x =
     (let f = \<lfloor>x\<rfloor>; r = x - of_int f
      in if r < 1 / 2 then f else if 1 / 2 < r then f + 1 else if even f then f else f + 1)"

definition round64 :: "rat \<Rightarrow> pyfloat" where
  "round64 q =
     (if q = 0 then Finite 0
      else
        let a = \<bar>q\<bar>;
            e = max (floor_log2 a) (- 1022);
            u = power_int 2 (e - 52);
            r = of_int (round_half_even (a / u)) * u
        in if 2 ^ 1024 \<le> r then (if 0 < q then PInf else NInf)
           else Finite (if 0 < q then r else - r))"

text \<open>
  \<^verbatim>\<open>float(s)\<close> for a string. The text is first brought to ASCII: a code point below
  127 stays as it is, any other white space becomes a blank, any other decimal digit of
  Unicode becomes the ASCII digit of its value, and at the first code point that is none of
  these the text ends with a question mark. \<open>decimal_ranges\<close> lists the decimal digits of
  Unicode 14.0.0 as inclusive ranges; in each range the values run from 0 to 9, in some
  ranges several times.
\<close>

definition decimal_ranges :: "(nat \<times> nat) list" where
  "decimal_ranges =
    [(48, 57), (1632, 1641), (1776, 1785), (1984, 1993), (2406, 2415), (2534, 2543),
     (2662, 2671), (2790, 2799), (2918, 2927), (3046, 3055), (3174, 3183), (3302, 3311),
     (3430, 3439), (3558, 3567), (3664, 3673), (3792, 3801), (3872, 3881), (4160, 4169),
     (4240, 4249), (6112, 6121), (6160, 6169), (6470, 6479), (6608, 6617), (6784, 6793),
     (6800, 6809), (6992, 7001), (7088, 7097), (7232, 7241), (7248, 7257), (42528, 42537),
     (43216, 43225), (43264, 43273), (43472, 43481), (43504, 43513), (43600, 43609),
     (44016, 44025), (65296, 65305), (66720, 66729), (68912, 68921), (69734, 69743),
     (69872, 69881), (69942, 69951), (70096, 70105), (70384, 70393), (70736, 70745),
     (70864, 70873), (71248, 71257), (71360, 71369), (71472, 71481), (71904, 71913),
     (72016, 72025), (72784, 72793), (73040, 73049), (73120, 73129), (92768, 92777),
     (92864, 92873), (93008, 93017), (120782, 120831), (123200, 123209), (123632, 123641),
     (125264, 125273), (130032, 130041)]"

definition to_decimal :: "nat \<Rightarrow> nat option" where
  "to_decimal c =
     (case find (\<lambda>(lo, hi). lo \<le> c \<and> c \<le> hi) decimal_ranges of
        None \<Rightarrow> None
      | Some (lo, hi) \<Rightarrow> Some ((c - lo) mod 10))"

fun to_ascii_text :: "ustr \<Rightarrow> ustr" where
  "to_ascii_text [] = []"
| "to_ascii_text (c # s) =
     (if c < 127 then c # to_ascii_text s
      else if isspace c then 32 # to_ascii_text s
      else case to_decimal c of None \<Rightarrow> [63] | Some d \<Rightarrow> (48 + d) # to_ascii_text s)"

text \<open>
  Then the ASCII white space around the text is dropped (blank, tab, line feed, vertical
  tab, form feed, carriage return), and what is left is an optional sign followed by
  \<^verbatim>\<open>inf\<close>, \<^verbatim>\<open>infinity\<close> or \<^verbatim>\<open>nan\<close> (in any case), or by a decimal number with an
  optional fraction and exponent, whose digit groups may be separated by single
  underscores. Anything else raises \<^verbatim>\<open>ValueError\<close>.
\<close>

definition ascii_isspace :: "nat \<Rightarrow> bool" where
  "ascii_isspace c = (c = 32 \<or> (9 \<le> c \<and> c \<le> 13))"

definition ascii_strip :: "ustr \<Rightarrow> ustr" where
  "ascii_strip s = rev (dropWhile ascii_isspace (rev (dropWhile ascii_isspace s)))"

definition is_digit :: "nat \<Rightarrow> bool" where
  "is_digit c = (48 \<le> c \<and> c \<le> 57)"

fun digitpart :: "ustr \<Rightarrow> bool" where
  "digitpart [] = False"
| "digitpart [c] = is_digit c"
| "digitpart (c # d # s) = (is_digit c \<and> (if d = 95 then digitpart s else digitpart (d # s)))"

definition digits_value :: "ustr \<Rightarrow> int" where
  "digits_value s = foldl (\<lambda>a c. 10 * a + (int c - 48)) 0 (filter is_digit s)"

definition take_sign :: "ustr \<Rightarrow> bool \<times> ustr" where
  "take_sign s =
     (case s of
        [] \<Rightarrow> (False, [])
      | c # r \<Rightarrow> if c = 45 then (True, r) else if c = 43 then (False, r) else (False, s))"

definition split_at :: "nat \<Rightarrow> ustr \<Rightarrow> ustr \<times> ustr option" where
  "split_at c s =
     (takeWhile (\<lambda>x. x \<noteq> c) s,
      case dropWhile (\<lambda>x. x \<noteq> c) s of [] \<Rightarrow> None | _ # r \<Rightarrow> Some r)"

definition ascii_lower :: "nat \<Rightarrow> nat" where
  "ascii_lower c = (if 65 \<le> c \<and> c \<le> 90 then c + 32 else c)"

text \<open>
  A decimal number as its digits' value and its power of ten: \<^verbatim>\<open>12.5e3\<close> is
  \<open>(125, 2)\<close>.
\<close>

definition parse_number :: "ustr \<Rightarrow> (int \<times> int) option" where
  "parse_number s =
     (let (m, ex) = split_at 101 s;
          (ip, fp) = split_at 46 m;
          mant_ok =
            (case fp of
               None \<Rightarrow> digitpart ip
             | Some f \<Rightarrow> (ip = [] \<or> digitpart ip) \<and> (f = [] \<or> digitpart f) \<and> (ip \<noteq> [] \<or> f \<noteq> []));
          f = (case fp of None \<Rightarrow> [] | Some f \<Rightarrow> f);
          exp_ok = (case ex of None \<Rightarrow> True | Some x \<Rightarrow> digitpart (snd (take_sign x)));
          e = (case ex of
                 None \<Rightarrow> 0
               | Some x \<Rightarrow> if fst (take_sign x) then - digits_value (snd (take_sign x))
                           else digits_value (snd (take_sign x)))
      in if mant_ok \<and> exp_ok
         then Some (digits_value (ip @ f), e - int (length (filter is_digit f)))
         else None)"

definition py_float :: "ustr \<Rightarrow> exn + pyfloat" where
  "py_float s =
     (let (neg, r) = take_sign (ascii_strip (to_ascii_text s)); t = map ascii_lower r
      in if t = ascii ''inf'' \<or> t = ascii ''infinity'' then Inr (if neg then NInf else PInf)
         else if t = ascii ''nan'' then Inr NaN
         else
           case parse_number t of
             None \<Rightarrow> Inl ValueError
           | Some (m, e) \<Rightarrow>
               Inr (round64 ((if neg then - 1 else 1) * of_int m * power_int 10 e)))"

text \<open>
  \<^verbatim>\<open>x / y\<close> on floats: a zero divisor raises \<^verbatim>\<open>ZeroDivisionError\<close> whatever the
  dividend is; otherwise the IEEE quotient.
\<close>

fun truediv :: "pyfloat \<Rightarrow> pyfloat \<Rightarrow> exn + pyfloat" where
  "truediv x (Finite b) =
     (if b = 0 then Inl ZeroDivisionError
      else
        case x of
          Finite a \<Rightarrow> Inr (round64 (a / b))
        | PInf \<Rightarrow> Inr (if 0 < b then PInf else NInf)
        | NInf \<Rightarrow> Inr (if 0 < b then NInf else PInf)
        | NaN \<Rightarrow> Inr NaN)"
| "truediv (Finite a) PInf = Inr (Finite 0)"
| "truediv (Finite a) NInf = Inr (Finite 0)"
| "truediv x y = Inr NaN"

text \<open>\<^verbatim>\<open>x < y\<close> and \<^verbatim>\<open>x <= y\<close> on floats: false as soon as one side is NaN.\<close>

fun flt :: "pyfloat \<Rightarrow> pyfloat \<Rightarrow> bool" where
  "flt NaN y = False"
| "flt x NaN = False"
| "flt (Finite a) (Finite b) = (a < b)"
| "flt x NInf = False"
| "flt NInf y = True"
| "flt PInf y = False"
| "flt x PInf = True"

definition fle :: "pyfloat \<Rightarrow> pyfloat \<Rightarrow> bool" where
  "fle x y = (x \<noteq> NaN \<and> y \<noteq> NaN \<and> (flt x y \<or> x = y))"

definition isnan :: "pyfloat \<Rightarrow> bool" where
  "isnan x = (x = NaN)"

definition isinf :: "pyfloat \<Rightarrow> bool" where
  "isinf x = (x = PInf \<or> x = NInf)"

definition is_zero :: "pyfloat \<Rightarrow> bool" where
  "is_zero x = (x = Finite 0)"

text \<open>
  \<^verbatim>\<open>sorted(xs, key=k)\<close> is a builtin whose code is not part of the program; it
  compares the keys with \<^verbatim>\<open><\<close> only. Of its result this much is fixed. The sort is
  stable, so with keys that \<^verbatim>\<open><\<close> orders totally (no NaN among them) the result is the
  one list that the stable insertion sort below returns: \<open>sift\<close> moves an element to the
  left past the elements whose key is greater, working on the sorted part in reverse. A list
  in which no key is less than the key before it is one ascending run, which is returned
  as it is. In every other case (a NaN among the keys and a descent somewhere) the result
  is a rearrangement of the list, whose order depends on the merges of the implementation
  and is left open.
\<close>

fun sift :: "('a \<Rightarrow> pyfloat) \<Rightarrow> 'a \<Rightarrow> 'a list \<Rightarrow> 'a list" where
  "sift k x [] = [x]"
| "sift k x (p # ps) = (if flt (k x) (k p) then p # sift k x ps else x # p # ps)"

definition stable_insertion_sort :: "('a \<Rightarrow> pyfloat) \<Rightarrow> 'a list \<Rightarrow> 'a list" where
  "stable_insertion_sort k xs = rev (fold (sift k) xs [])"

definition sorted_result :: "('a \<Rightarrow> pyfloat) \<Rightarrow> 'a list \<Rightarrow> 'a list \<Rightarrow> bool" where
  "sorted_result k xs ys =
     (if list_all (\<lambda>x. k x \<noteq> NaN) xs then ys = stable_insertion_sort k xs
      else if successively (\<lambda>a b. \<not> flt (k b) (k a)) xs then ys = xs
      else mset ys = mset xs)"

text \<open>
  The builtin is a parameter \<open>srt\<close> of \<open>find_text\<close>; \<open>sorted_contract srt\<close> says that
  \<open>srt\<close> returns such a result for every key function and every list.
\<close>

definition sorted_contract :: "(('a \<Rightarrow> pyfloat) \<Rightarrow> 'a list \<Rightarrow> 'a list) \<Rightarrow> bool" where
  "sorted_contract srt = (\<forall>k xs. sorted_result k xs (srt k xs))"

section \<open>The analyzer\<close>

text \<open>
  A catalog entry is the tuple \<^verbatim>\<open>(name, price, weight, file, price_per_kg)\<close> that
  \<^verbatim>\<open>load_prices\<close> appends to \<^verbatim>\<open>self.data\<close>; \<^verbatim>\<open>entry[0]\<close> is its name and
  \<^verbatim>\<open>x[-1]\<close> its price per kilogram (the spec's unitPrice).
\<close>

record entry =
  name :: ustr
  price :: pyfloat
  weight :: pyfloat
  source_file :: ustr
  price_per_kg :: pyfloat

record PriceAnalyzer =
  folder_path :: ustr
  data :: "entry list"

text \<open>
  The three messages that \<^verbatim>\<open>load_prices\<close> logs: the warning for a file without a
  required column (with the names of the missing columns), the error for a skipped row
  and the error of the outer handler, each with the file's name.
\<close>

datatype log_record =
  Warning_missing_columns ustr "ustr list"
| Error_row ustr exn
| Error_open ustr exn

text \<open>
  The state that \<^verbatim>\<open>load_prices\<close> changes: the analyzer and the log written so far.
\<close>

type_synonym state = "PriceAnalyzer \<times> log_record list"

subsection \<open>The file system and \<^verbatim>\<open>csv.DictReader\<close>\<close>

text \<open>
  \<^verbatim>\<open>os.listdir\<close> gives the names in a directory or raises. \<^verbatim>\<open>open\<close> followed by
  \<^verbatim>\<open>csv.reader\<close> gives the rows of a file, each a list of cells, or raises; the first
  row is the header, and a blank line is the empty row. (A file that opens and then fails
  in the middle of reading is not modelled.)
\<close>

record filesystem =
  listdir :: "ustr \<Rightarrow> exn + ustr list"
  open_csv :: "ustr \<Rightarrow> exn + ustr list list"

text \<open>\<^verbatim>\<open>os.path.join\<close> for two components (POSIX).\<close>

definition path_join :: "ustr \<Rightarrow> ustr \<Rightarrow> ustr" where
  "path_join a b =
     (if b \<noteq> [] \<and> hd b = 47 then b
      else if a = [] \<or> last a = 47 then a @ b
      else a @ [47] @ b)"

text \<open>
  The dictionary \<^verbatim>\<open>DictReader\<close> builds for a row: \<^verbatim>\<open>dict(zip(fieldnames, row))\<close>,
  then \<^verbatim>\<open>None\<close> for every field name beyond the row's length. A cell is \<open>Some s\<close>, the
  missing cell \<open>None\<close>. (The cells beyond the header's length go under the key
  \<^verbatim>\<open>None\<close>, which no header string looks up.) Blank rows are not returned.
\<close>

definition dict_row :: "ustr list \<Rightarrow> ustr list \<Rightarrow> (ustr \<rightharpoonup> ustr option)" where
  "dict_row fieldnames row =
     fold (\<lambda>(key, v) d. d(key \<mapsto> v))
       (zip fieldnames (map Some row @ replicate (length fieldnames - length row) None))
       Map.empty"

definition dict_rows :: "ustr list \<Rightarrow> ustr list list \<Rightarrow> (ustr \<rightharpoonup> ustr option) list" where
  "dict_rows fieldnames rows = map (dict_row fieldnames) (filter (\<lambda>row. row \<noteq> []) rows)"

definition getitem :: "('k \<rightharpoonup> 'v) \<Rightarrow> 'k \<Rightarrow> exn + 'v" where
  "getitem d key = (case d key of None \<Rightarrow> Inl KeyError | Some v \<Rightarrow> Inr v)"

text \<open>\<^verbatim>\<open>v.strip()\<close> on a cell: \<^verbatim>\<open>None\<close> has no such method.\<close>

definition cell_strip :: "ustr option \<Rightarrow> exn + ustr" where
  "cell_strip v = (case v of None \<Rightarrow> Inl AttributeError | Some s \<Rightarrow> Inr (py_strip s))"

subsection \<open>\<^verbatim>\<open>load_prices\<close>\<close>

text \<open>
  The synonym table (lines 32 to 37): nazvanie, produkt, tovar, naimenovanie map to
  \<^verbatim>\<open>name\<close>; tsena, roznitsa to \<^verbatim>\<open>price\<close>; fasovka, massa, ves to \<^verbatim>\<open>weight\<close>.
\<close>

definition column_mapping :: "ustr \<rightharpoonup> ustr" where
  "column_mapping = map_of
     [([1085, 1072, 1079, 1074, 1072, 1085, 1080, 1077], ascii ''name''),
      ([1087, 1088, 1086, 1076, 1091, 1082, 1090], ascii ''name''),
      ([1090, 1086, 1074, 1072, 1088], ascii ''name''),
      ([1085, 1072, 1080, 1084, 1077, 1085, 1086, 1074, 1072, 1085, 1080, 1077], ascii ''name''),
      ([1094, 1077, 1085, 1072], ascii ''price''),
      ([1088, 1086, 1079, 1085, 1080, 1094, 1072], ascii ''price''),
      ([1092, 1072, 1089, 1086, 1074, 1082, 1072], ascii ''weight''),
      ([1084, 1072, 1089, 1089, 1072], ascii ''weight''),
      ([1074, 1077, 1089], ascii ''weight'')]"

text \<open>
  Lines 47 to 51: each header is looked up in lower case; a header with a (non-empty)
  canonical name is stored under it, replacing an earlier one.
\<close>

definition map_column :: "ustr \<Rightarrow> (ustr \<rightharpoonup> ustr) \<Rightarrow> (ustr \<rightharpoonup> ustr)" where
  "map_column col columns =
     (case column_mapping (py_lower col) of
        None \<Rightarrow> columns
      | Some mapped_col \<Rightarrow> if mapped_col \<noteq> [] then columns(mapped_col \<mapsto> col) else columns)"

definition resolve_columns :: "ustr list \<Rightarrow> (ustr \<rightharpoonup> ustr)" where
  "resolve_columns fieldnames = fold map_column fieldnames Map.empty"

definition required_columns :: "ustr list" where
  "required_columns = [ascii ''name'', ascii ''price'', ascii ''weight'']"

definition missing_columns :: "(ustr \<rightharpoonup> ustr) \<Rightarrow> ustr list" where
  "missing_columns columns = filter (\<lambda>col. columns col = None) required_columns"

text \<open>Lines 64 to 69: the body of the inner \<^verbatim>\<open>try\<close>, up to the entry to append.\<close>

definition process_row :: "(ustr \<rightharpoonup> ustr) \<Rightarrow> ustr \<Rightarrow> (ustr \<rightharpoonup> ustr option) \<Rightarrow> exn + entry" where
  "process_row columns fname row =
     try_bind (getitem columns (ascii ''name'')) (\<lambda>name_col.
     try_bind (getitem row name_col) (\<lambda>name_cell.
     try_bind (cell_strip name_cell) (\<lambda>name_v.
     try_bind (getitem columns (ascii ''price'')) (\<lambda>price_col.
     try_bind (getitem row price_col) (\<lambda>price_cell.
     try_bind (cell_strip price_cell) (\<lambda>price_text.
     try_bind (py_float price_text) (\<lambda>price_v.
     try_bind (getitem columns (ascii ''weight'')) (\<lambda>weight_col.
     try_bind (getitem row weight_col) (\<lambda>weight_cell.
     try_bind (cell_strip weight_cell) (\<lambda>weight_text.
     try_bind (py_float weight_text) (\<lambda>weight_v.
     try_bind (truediv price_v weight_v) (\<lambda>per_kg.
       Inr \<lparr>name = name_v, price = price_v, weight = weight_v, source_file = fname,
            price_per_kg = per_kg\<rparr>))))))))))))"

text \<open>
  Line 71: the inner handler catches \<^verbatim>\<open>KeyError\<close>, \<^verbatim>\<open>ValueError\<close> and
  \<^verbatim>\<open>TypeError\<close>.
\<close>

definition caught_by_row_handler :: "exn \<Rightarrow> bool" where
  "caught_by_row_handler e = (e = KeyError \<or> e = ValueError \<or> e = TypeError)"

text \<open>
  Lines 62 to 75, the loop over the rows. An entry is appended; an exception of the
  inner handler is logged and the loop goes on; any other exception leaves the loop,
  with what was appended and logged before it. The result is the state and the
  exception that left the loop, if one did.
\<close>

fun process_rows ::
  "(ustr \<rightharpoonup> ustr) \<Rightarrow> ustr \<Rightarrow> (ustr \<rightharpoonup> ustr option) list \<Rightarrow> state \<Rightarrow> state \<times> exn option" where
  "process_rows columns fname [] st = (st, None)"
| "process_rows columns fname (row # rows) (self, logs) =
     (case process_row columns fname row of
        Inr e \<Rightarrow> process_rows columns fname rows (self\<lparr>data := data self @ [e]\<rparr>, logs)
      | Inl ex \<Rightarrow>
          if caught_by_row_handler ex
          then process_rows columns fname rows (self, logs @ [Error_row fname ex])
          else ((self, logs), Some ex))"

text \<open>
  Lines 40 to 78, the body of the loop over the files. Iterating over the field names of
  an empty file (\<^verbatim>\<open>None\<close>) raises \<^verbatim>\<open>TypeError\<close>. The outer handler catches every
  exception, logs it and lets the loop over the files go on.
\<close>

definition load_file :: "filesystem \<Rightarrow> ustr \<Rightarrow> state \<Rightarrow> state" where
  "load_file fs fname st =
     (case open_csv fs (path_join (folder_path (fst st)) fname) of
        Inl ex \<Rightarrow> (fst st, snd st @ [Error_open fname ex])
      | Inr [] \<Rightarrow> (fst st, snd st @ [Error_open fname TypeError])
      | Inr (fieldnames # rows) \<Rightarrow>
          let columns = resolve_columns fieldnames in
          if missing_columns columns \<noteq> []
          then (fst st, snd st @ [Warning_missing_columns fname (missing_columns columns)])
          else
            case process_rows columns fname (dict_rows fieldnames rows) st of
              (st', None) \<Rightarrow> st'
            | (st', Some ex) \<Rightarrow> (fst st', snd st' @ [Error_open fname ex]))"

text \<open>Line 31: the names that contain \<^verbatim>\<open>price\<close>.\<close>

definition price_files :: "ustr list \<Rightarrow> ustr list" where
  "price_files names = filter (str_in (ascii ''price'')) names"

text \<open>
  \<^verbatim>\<open>load_prices\<close>. The directory listing is outside every \<^verbatim>\<open>try\<close>: its exception
  leaves the method.
\<close>

definition load_prices :: "filesystem \<Rightarrow> state \<Rightarrow> exn + state" where
  "load_prices fs st =
     (case listdir fs (folder_path (fst st)) of
        Inl ex \<Rightarrow> Inl ex
      | Inr names \<Rightarrow> Inr (fold (load_file fs) (price_files names) st))"

subsection \<open>\<^verbatim>\<open>find_text\<close>\<close>

definition matches :: "ustr \<Rightarrow> entry \<Rightarrow> bool" where
  "matches query e = str_in (py_lower query) (py_lower (name e))"

text \<open>
  \<^verbatim>\<open>find_text\<close> returns its result and the analyzer it leaves behind; \<open>srt\<close> is the
  builtin \<^verbatim>\<open>sorted\<close>.
\<close>

definition find_text ::
  "((entry \<Rightarrow> pyfloat) \<Rightarrow> entry list \<Rightarrow> entry list) \<Rightarrow> PriceAnalyzer \<Rightarrow> ustr \<Rightarrow>
   entry list \<times> PriceAnalyzer" where
  "find_text srt self query =
     (let results = filter (matches query) (data self)
      in (srt price_per_kg results, self))"

section \<open>Inputs of the examples\<close>

text \<open>
  \<^verbatim>\<open>__init__\<close> stores the folder and starts with an empty catalog. The examples run the
  loader on a file system with one directory, \<^verbatim>\<open>./price_lists\<close> (the folder of the main
  program), whose files are given with their rows in the order of the listing.
\<close>

definition init :: "ustr \<Rightarrow> PriceAnalyzer" where
  "init path = \<lparr>folder_path = path, data = []\<rparr>"

definition dir_fs :: "ustr \<Rightarrow> (ustr \<times> ustr list list) list \<Rightarrow> filesystem" where
  "dir_fs d files =
     \<lparr>listdir = (\<lambda>p. if p = d then Inr (map fst files) else Inl OSError),
      open_csv = (\<lambda>p. case map_of (map (\<lambda>(n, rows). (path_join d n, rows)) files) p of
                        None \<Rightarrow> Inl OSError
                      | Some rows \<Rightarrow> Inr rows)\<rparr>"

definition price_lists :: ustr where
  "price_lists = ascii ''./price_lists''"

text \<open>A file system without the directory: every listing and every open fails.\<close>

definition missing_dir_fs :: filesystem where
  "missing_dir_fs = \<lparr>listdir = (\<lambda>p. Inl OSError), open_csv = (\<lambda>p. Inl OSError)\<rparr>"

text \<open>
  Headers: Nazvanie, Tsena, Fasovka (capitalised, as in the price lists); the same without
  the weight column; and a header list in which TOVAR (in capitals) and Nazvanie both mean
  the name, with a column \<^verbatim>\<open>id\<close> that the synonym table does not know.
\<close>

definition header_title :: "ustr list" where
  "header_title =
     [[1053, 1072, 1079, 1074, 1072, 1085, 1080, 1077],
      [1062, 1077, 1085, 1072],
      [1060, 1072, 1089, 1086, 1074, 1082, 1072]]"

definition header_no_weight :: "ustr list" where
  "header_no_weight = [[1053, 1072, 1079, 1074, 1072, 1085, 1080, 1077], [1062, 1077, 1085, 1072]]"

definition header_twice :: "ustr list" where
  "header_twice =
     [[1058, 1054, 1042, 1040, 1056], [1062, 1077, 1085, 1072], [1042, 1077, 1089],
      [1053, 1072, 1079, 1074, 1072, 1085, 1080, 1077], ascii ''id'']"

text \<open>
  Rows: two well-formed ones, one with weight zero, one without its weight cell, one with
  a price that is no number, the butter row of the specification (Maslo, 200, 0.5), and
  rows whose price is \<^verbatim>\<open>inf\<close> or \<^verbatim>\<open>nan\<close>.
\<close>

definition row_a :: "ustr list" where "row_a = [ascii ''A'', ascii ''10'', ascii ''2'']"

definition row_c :: "ustr list" where "row_c = [ascii ''C'', ascii ''10'', ascii ''5'']"

definition row_zero :: "ustr list" where "row_zero = [ascii ''B'', ascii ''10'', ascii ''0'']"

definition row_short :: "ustr list" where "row_short = [ascii ''B'', ascii ''10'']"

definition row_text :: "ustr list" where "row_text = [ascii ''B'', ascii ''abc'', ascii ''1'']"

definition row_butter :: "ustr list" where
  "row_butter = [[1052, 1072, 1089, 1083, 1086], ascii ''200'', ascii ''0.5'']"

definition row_inf :: "ustr list" where "row_inf = [ascii ''A'', ascii ''inf'', ascii ''1'']"

definition row_nan :: "ustr list" where "row_nan = [ascii ''B'', ascii ''nan'', ascii ''1'']"

definition row_three :: "ustr list" where "row_three = [ascii ''A'', ascii ''3'', ascii ''1'']"

definition row_one :: "ustr list" where "row_one = [ascii ''C'', ascii ''1'', ascii ''1'']"

text \<open>The entries that the well-formed rows give, for a file name \<open>f\<close>.\<close>

definition entry_a :: "ustr \<Rightarrow> entry" where
  "entry_a f = \<lparr>name = ascii ''A'', price = Finite 10, weight = Finite 2, source_file = f,
                price_per_kg = Finite 5\<rparr>"

definition entry_c :: "ustr \<Rightarrow> entry" where
  "entry_c f = \<lparr>name = ascii ''C'', price = Finite 10, weight = Finite 5, source_file = f,
                price_per_kg = Finite 2\<rparr>"

definition entry_butter :: "ustr \<Rightarrow> entry" where
  "entry_butter f = \<lparr>name = [1052, 1072, 1089, 1083, 1086], price = Finite 200,
     weight = Finite (1 / 2), source_file = f, price_per_kg = Finite 400\<rparr>"

definition entry_inf :: "ustr \<Rightarrow> entry" where
  "entry_inf f = \<lparr>name = ascii ''A'', price = PInf, weight = Finite 1, source_file = f,
     price_per_kg = PInf\<rparr>"

definition entry_nan :: "ustr \<Rightarrow> entry" where
  "entry_nan f = \<lparr>name = ascii ''B'', price = NaN, weight = Finite 1, source_file = f,
     price_per_kg = NaN\<rparr>"

definition entry_three :: "ustr \<Rightarrow> entry" where
  "entry_three f = \<lparr>name = ascii ''A'', price = Finite 3, weight = Finite 1, source_file = f,
     price_per_kg = Finite 3\<rparr>"

definition entry_one :: "ustr \<Rightarrow> entry" where
  "entry_one f = \<lparr>name = ascii ''C'', price = Finite 1, weight = Finite 1, source_file = f,
     price_per_kg = Finite 1\<rparr>"

definition entry_milk :: entry where
  "entry_milk = \<lparr>name = [1052, 1086, 1083, 1086, 1082, 1086], price = Finite 60,
     weight = Finite 1, source_file = ascii ''price.csv'', price_per_kg = Finite 60\<rparr>"

definition entry_milk_base :: entry where
  "entry_milk_base =
     \<lparr>name = [1052, 1086, 1083, 1086, 1095, 1085, 1072, 1103, 32, 1086, 1089, 1085, 1086, 1074, 1072],
      price = Finite 50, weight = Finite 1, source_file = ascii ''price.csv'',
      price_per_kg = Finite 50\<rparr>"

text \<open>The directories of the examples.\<close>

definition zero_weight_fs :: filesystem where
  "zero_weight_fs = dir_fs price_lists [(ascii ''price.csv'', [header_title, row_a, row_zero, row_c])]"

definition short_row_fs :: filesystem where
  "short_row_fs = dir_fs price_lists [(ascii ''price.csv'', [header_title, row_a, row_short, row_c])]"

definition text_row_fs :: filesystem where
  "text_row_fs = dir_fs price_lists [(ascii ''price.csv'', [header_title, row_a, row_text, row_c])]"

definition butter_fs :: filesystem where
  "butter_fs = dir_fs price_lists [(ascii ''price.csv'', [header_title, row_butter])]"

definition inf_nan_fs :: filesystem where
  "inf_nan_fs = dir_fs price_lists [(ascii ''price.csv'', [header_title, row_inf, row_nan])]"

definition nan_between_fs :: filesystem where
  "nan_between_fs =
     dir_fs price_lists [(ascii ''price.csv'', [header_title, row_three, row_nan, row_one])]"

definition two_files_fs :: filesystem where
  "two_files_fs = dir_fs price_lists
     [(ascii ''price_a.csv'', [header_no_weight, row_short]),
      (ascii ''price_b.csv'', [header_title, row_butter])]"

definition capital_name_fs :: "ustr list list \<Rightarrow> filesystem" where
  "capital_name_fs rows = dir_fs price_lists
     [(ascii ''Price1.csv'', rows), (ascii ''price.csv'', [header_title, row_c])]"

text \<open>
  Catalogs: the one loaded from \<open>nan_between_fs\<close>; one with Moloko (60 per kg) before
  Molochnaya osnova (50 per kg); the same with an entry B between them whose
  \<open>price_per_kg\<close> is NaN; and one with the Ukrainian name Ganok, whose first letter is
  U+0490, the capital of U+0491.
\<close>

definition nan_catalog :: PriceAnalyzer where
  "nan_catalog = \<lparr>folder_path = price_lists,
     data = [entry_three (ascii ''price.csv''), entry_nan (ascii ''price.csv''),
             entry_one (ascii ''price.csv'')]\<rparr>"


definition milk_nan_catalog :: PriceAnalyzer where
  "milk_nan_catalog = \<lparr>folder_path = price_lists,
     data = [entry_milk, entry_nan (ascii ''price.csv''), entry_milk_base]\<rparr>"

definition entry_porch :: entry where
  "entry_porch = \<lparr>name = [1168, 1072, 1085, 1086, 1082], price = Finite 10, weight = Finite 1,
     source_file = ascii ''price.csv'', price_per_kg = Finite 10\<rparr>"




section \<open>Strings, floats and sorting\<close>

lemma str_in_sublist: "str_in q s = sublist q s"
  by (induction s) (simp_all add: sublist_Cons_right)

lemma str_in_iff: "str_in q s \<longleftrightarrow> (\<exists>pre suf. s = pre @ q @ suf)"
  by (simp add: str_in_sublist sublist_def)

lemma str_in_empty: "str_in [] s"
  by (simp add: str_in_sublist)

lemma flt_irrefl: "\<not> flt x x"
  by (cases x) simp_all

lemma flt_imp_fle: "flt x y \<Longrightarrow> fle x y"
  by (cases x; cases y) (simp_all add: fle_def)

lemma not_flt_imp_fle: "x \<noteq> NaN \<Longrightarrow> y \<noteq> NaN \<Longrightarrow> \<not> flt x y \<Longrightarrow> fle y x"
  by (cases x; cases y) (auto simp: fle_def)

lemma fle_trans: "fle x y \<Longrightarrow> fle y z \<Longrightarrow> fle x z"
  by (cases x; cases y; cases z) (auto simp: fle_def)

lemma mset_sift: "mset (sift k x ps) = add_mset x (mset ps)"
  by (induction ps) simp_all

lemma set_sift: "set (sift k x ps) = insert x (set ps)"
  by (induction ps) auto

lemma mset_fold_sift: "mset (fold (sift k) xs acc) = mset xs + mset acc"
  by (induction xs arbitrary: acc) (simp_all add: mset_sift)

lemma stable_insertion_sort_Nil: "stable_insertion_sort k [] = []"
  by (simp add: stable_insertion_sort_def)

lemma mset_stable_insertion_sort: "mset (stable_insertion_sort k xs) = mset xs"
  by (simp add: stable_insertion_sort_def mset_fold_sift)

lemma set_stable_insertion_sort: "set (stable_insertion_sort k xs) = set xs"
  using mset_stable_insertion_sort [of k xs] by (metis set_mset_mset)

lemma filter_key_sift:
  "filter (\<lambda>e. k e = v) (sift k x ps) =
     (if k x = v then x # filter (\<lambda>e. k e = v) ps else filter (\<lambda>e. k e = v) ps)"
  by (induction ps) (auto simp: flt_irrefl)

lemma filter_key_fold_sift:
  "filter (\<lambda>e. k e = v) (fold (sift k) xs acc) =
     rev (filter (\<lambda>e. k e = v) xs) @ filter (\<lambda>e. k e = v) acc"
  by (induction xs arbitrary: acc) (simp_all add: filter_key_sift)

lemma filter_key_stable_insertion_sort:
  "filter (\<lambda>e. k e = v) (stable_insertion_sort k xs) = filter (\<lambda>e. k e = v) xs"
  by (simp add: stable_insertion_sort_def filter_key_fold_sift rev_filter [symmetric])

lemma descending_sift:
  assumes "sorted_wrt (\<lambda>a b. fle (k b) (k a)) ps" and "k x \<noteq> NaN" and "\<forall>p\<in>set ps. k p \<noteq> NaN"
  shows "sorted_wrt (\<lambda>a b. fle (k b) (k a)) (sift k x ps)"
  using assms
proof (induction ps)
  case Nil
  then show ?case by simp
next
  case (Cons p ps)
  show ?case
  proof (cases "flt (k x) (k p)")
    case True
    with Cons show ?thesis
      by (auto simp: set_sift flt_imp_fle)
  next
    case False
    with Cons.prems have "fle (k p) (k x)"
      by (simp add: not_flt_imp_fle)
    with False Cons.prems show ?thesis
      by (auto intro: fle_trans)
  qed
qed

lemma descending_fold_sift:
  assumes "sorted_wrt (\<lambda>a b. fle (k b) (k a)) acc"
    and "\<forall>x\<in>set xs. k x \<noteq> NaN" and "\<forall>p\<in>set acc. k p \<noteq> NaN"
  shows "sorted_wrt (\<lambda>a b. fle (k b) (k a)) (fold (sift k) xs acc)"
  using assms
proof (induction xs arbitrary: acc)
  case Nil
  then show ?case by simp
next
  case (Cons x xs)
  have "sorted_wrt (\<lambda>a b. fle (k b) (k a)) (sift k x acc)"
    using Cons.prems by (intro descending_sift) simp_all
  moreover have "\<forall>p\<in>set (sift k x acc). k p \<noteq> NaN"
    using Cons.prems by (simp add: set_sift)
  ultimately show ?case
    using Cons.prems by (simp add: Cons.IH)
qed

lemma ascending_stable_insertion_sort:
  assumes "\<forall>x\<in>set xs. k x \<noteq> NaN"
  shows "sorted_wrt (\<lambda>a b. fle (k a) (k b)) (stable_insertion_sort k xs)"
  using descending_fold_sift [of k "[]" xs] assms
  by (simp add: stable_insertion_sort_def sorted_wrt_rev)

text \<open>A list with no descent between neighbours is returned as it is.\<close>

lemma fold_sift_run:
  "successively (\<lambda>a b. \<not> flt (k b) (k a)) (rev acc @ xs) \<Longrightarrow> fold (sift k) xs acc = rev xs @ acc"
proof (induction xs arbitrary: acc)
  case Nil
  show ?case by simp
next
  case (Cons x xs)
  have "sift k x acc = x # acc"
  proof (cases acc)
    case Nil
    then show ?thesis by simp
  next
    case (Cons p ps)
    with Cons.prems have "\<not> flt (k x) (k p)"
      by (simp add: successively_append_iff)
    with Cons show ?thesis by simp
  qed
  moreover have "successively (\<lambda>a b. \<not> flt (k b) (k a)) (rev (x # acc) @ xs)"
    using Cons.prems by simp
  ultimately show ?case
    using Cons.IH [of "x # acc"] by simp
qed

lemma stable_insertion_sort_run:
  "successively (\<lambda>a b. \<not> flt (k b) (k a)) xs \<Longrightarrow> stable_insertion_sort k xs = xs"
  using fold_sift_run [of k "[]" xs] by (simp add: stable_insertion_sort_def)

text \<open>What the contract of the builtin gives, and one function that meets it.\<close>

lemma sorted_contract_result: "sorted_contract srt \<Longrightarrow> sorted_result k xs (srt k xs)"
  by (simp add: sorted_contract_def)

lemma sorted_contract_total:
  assumes "sorted_contract srt" and "\<forall>x\<in>set xs. k x \<noteq> NaN"
  shows "srt k xs = stable_insertion_sort k xs"
  using sorted_contract_result [OF assms(1), of k xs] assms(2)
  by (simp add: sorted_result_def list_all_iff)

lemma sorted_contract_run:
  assumes "sorted_contract srt" and "successively (\<lambda>a b. \<not> flt (k b) (k a)) xs"
  shows "srt k xs = xs"
  using sorted_contract_result [OF assms(1), of k xs] assms(2)
  by (simp add: sorted_result_def stable_insertion_sort_run split: if_splits)

lemma sorted_contract_mset:
  assumes "sorted_contract srt"
  shows "mset (srt k xs) = mset xs"
  using sorted_contract_result [OF assms, of k xs]
  by (auto simp: sorted_result_def mset_stable_insertion_sort split: if_splits)


lemma sorted_contract_Nil:
  assumes "sorted_contract srt"
  shows "srt k [] = []"
  using sorted_contract_mset [OF assms, of k "[]"] by simp

lemma insertion_sort_contract: "sorted_contract stable_insertion_sort"
  by (simp add: sorted_contract_def sorted_result_def stable_insertion_sort_run
      mset_stable_insertion_sort)

subsection \<open>Lower case\<close>

text \<open>The lower-case table on Basic Latin and on the two Cyrillic blocks.\<close>

lemma lower_ascii:
  "c < 128 \<Longrightarrow> to_lower_full c = (if 65 \<le> c \<and> c \<le> 90 then [97 + (c - 65)] else [c])"
  by (simp add: to_lower_full_def lower_ranges_def)

lemma lower_cyrillic:
  "1024 \<le> c \<Longrightarrow> c \<le> 1327 \<Longrightarrow> to_lower_full c =
     (case find (\<lambda>(lo, hi, step, target). lo \<le> c \<and> c \<le> hi \<and> (c - lo) mod step = 0)
        [(1024, 1039, 1, 1104), (1040, 1071, 1, 1072), (1120, 1152, 2, 1121), (1162, 1214, 2, 1163),
         (1216, 1216, 1, 1231), (1217, 1229, 2, 1218), (1232, 1326, 2, 1233)] of
          None \<Rightarrow> [c]
        | Some (lo, hi, step, target) \<Rightarrow> [target + (c - lo)])"
  by (simp add: to_lower_full_def lower_ranges_def)

















section \<open>The effect of the loader\<close>

lemma column_mapping_range:
  "column_mapping h = Some c \<Longrightarrow> c = ascii ''name'' \<or> c = ascii ''price'' \<or> c = ascii ''weight''"
  by (auto simp: column_mapping_def split: if_splits)

lemma column_mapping_nonempty: "column_mapping h = Some c \<Longrightarrow> c \<noteq> []"
  by (auto dest!: column_mapping_range simp: ascii_def)

lemma map_column_apply:
  "map_column h m c = (if column_mapping (py_lower h) = Some c then Some h else m c)"
  by (auto simp: map_column_def column_mapping_nonempty split: option.splits)

lemma fold_map_column:
  "fold map_column hs m c =
     (case filter (\<lambda>h. column_mapping (py_lower h) = Some c) hs of
        [] \<Rightarrow> m c
      | ms \<Rightarrow> Some (last ms))"
proof (induction hs arbitrary: m)
  case Nil
  show ?case by simp
next
  case (Cons h hs)
  have "fold map_column (h # hs) m c =
          (case filter (\<lambda>h. column_mapping (py_lower h) = Some c) hs of
             [] \<Rightarrow> map_column h m c
           | ms \<Rightarrow> Some (last ms))"
    by (simp add: Cons.IH)
  also have "\<dots> =
          (case filter (\<lambda>h. column_mapping (py_lower h) = Some c) (h # hs) of
             [] \<Rightarrow> m c
           | ms \<Rightarrow> Some (last ms))"
    by (simp add: map_column_apply split: list.splits)
  finally show ?case .
qed

lemma resolve_last: "resolve_columns hs c =
     (case filter (\<lambda>h. column_mapping (py_lower h) = Some c) hs of
        [] \<Rightarrow> None
      | ms \<Rightarrow> Some (last ms))"
  by (simp add: resolve_columns_def fold_map_column)

lemma process_row_Inr:
  assumes "process_row c f row = Inr e"
  shows "truediv (price e) (weight e) = Inr (price_per_kg e)" and "source_file e = f"
  using assms
  by (auto simp: process_row_def try_bind_def split: sum.splits)

lemma truediv_Inr_nonzero: "truediv x y = Inr z \<Longrightarrow> y \<noteq> Finite 0"
  by (cases y) (auto split: if_splits)

lemma process_rows_effect:
  "\<exists>es ls x.
     (\<forall>self logs. process_rows c f rows (self, logs) = ((self\<lparr>data := data self @ es\<rparr>, logs @ ls), x)) \<and>
     (\<forall>e\<in>set es. \<exists>row\<in>set rows. process_row c f row = Inr e)"
proof (induction rows)
  case Nil
  show ?case
    by (rule exI [of _ "[]"], rule exI [of _ "[]"], rule exI [of _ None]) simp
next
  case (Cons row rows)
  then obtain es ls x where
    eff: "\<And>self logs. process_rows c f rows (self, logs) = ((self\<lparr>data := data self @ es\<rparr>, logs @ ls), x)"
    and src: "\<forall>e\<in>set es. \<exists>row\<in>set rows. process_row c f row = Inr e"
    by blast
  show ?case
  proof (cases "process_row c f row")
    case (Inr e)
    with eff src show ?thesis
      by (intro exI [of _ "e # es"] exI [of _ ls] exI [of _ x]) auto
  next
    case (Inl ex)
    show ?thesis
    proof (cases "caught_by_row_handler ex")
      case True
      with Inl eff src show ?thesis
        by (intro exI [of _ es] exI [of _ "Error_row f ex # ls"] exI [of _ x]) auto
    next
      case False
      with Inl show ?thesis
        by (intro exI [of _ "[]"] exI [of _ "[]"] exI [of _ "Some ex"]) auto
    qed
  qed
qed

lemma load_file_effect:
  "\<exists>es ls.
     (\<forall>st. folder_path (fst st) = d \<longrightarrow>
        load_file fs f st = ((fst st)\<lparr>data := data (fst st) @ es\<rparr>, snd st @ ls)) \<and>
     (\<forall>e\<in>set es. \<exists>c row. process_row c f row = Inr e)"
proof (cases "open_csv fs (path_join d f)")
  case (Inl ex)
  then show ?thesis
    by (intro exI [of _ "[]"] exI [of _ "[Error_open f ex]"]) (simp add: load_file_def)
next
  case (Inr rows)
  show ?thesis
  proof (cases rows)
    case Nil
    with Inr show ?thesis
      by (intro exI [of _ "[]"] exI [of _ "[Error_open f TypeError]"]) (simp add: load_file_def)
  next
    case (Cons fieldnames body)
    show ?thesis
    proof (cases "missing_columns (resolve_columns fieldnames) = []")
      case False
      with Inr Cons show ?thesis
        by (intro exI [of _ "[]"]
              exI [of _ "[Warning_missing_columns f (missing_columns (resolve_columns fieldnames))]"])
           (simp add: load_file_def)
    next
      case True
      obtain es ls x where
        eff: "\<And>self logs. process_rows (resolve_columns fieldnames) f (dict_rows fieldnames body) (self, logs)
                = ((self\<lparr>data := data self @ es\<rparr>, logs @ ls), x)"
        and src: "\<forall>e\<in>set es. \<exists>row\<in>set (dict_rows fieldnames body).
                    process_row (resolve_columns fieldnames) f row = Inr e"
        using process_rows_effect [of "resolve_columns fieldnames" f "dict_rows fieldnames body"]
        by blast
      have eff': "\<And>st. process_rows (resolve_columns fieldnames) f (dict_rows fieldnames body) st
                = (((fst st)\<lparr>data := data (fst st) @ es\<rparr>, snd st @ ls), x)"
        using eff by (metis prod.collapse)
      have src': "\<forall>e\<in>set es. \<exists>c row. process_row c f row = Inr e"
        using src by blast
      show ?thesis
      proof (cases x)
        case None
        with Inr Cons True eff' have
          "\<forall>st. folder_path (fst st) = d \<longrightarrow>
             load_file fs f st = ((fst st)\<lparr>data := data (fst st) @ es\<rparr>, snd st @ ls)"
          by (simp add: load_file_def)
        with src' show ?thesis by blast
      next
        case (Some ex)
        with Inr Cons True eff' have
          "\<forall>st. folder_path (fst st) = d \<longrightarrow>
             load_file fs f st
               = ((fst st)\<lparr>data := data (fst st) @ es\<rparr>, snd st @ (ls @ [Error_open f ex]))"
          by (simp add: load_file_def)
        with src' show ?thesis by blast
      qed
    qed
  qed
qed

lemma fold_load_file_effect:
  "\<exists>es ls.
     (\<forall>st. folder_path (fst st) = d \<longrightarrow>
        fold (load_file fs) names st = ((fst st)\<lparr>data := data (fst st) @ es\<rparr>, snd st @ ls)) \<and>
     (\<forall>e\<in>set es. \<exists>c f row. f \<in> set names \<and> process_row c f row = Inr e)"
proof (induction names)
  case Nil
  show ?case
    by (intro exI [of _ "[]"]) simp
next
  case (Cons f names)
  obtain es1 ls1 where
    one: "\<And>st. folder_path (fst st) = d \<Longrightarrow>
            load_file fs f st = ((fst st)\<lparr>data := data (fst st) @ es1\<rparr>, snd st @ ls1)"
    and src1: "\<forall>e\<in>set es1. \<exists>c row. process_row c f row = Inr e"
    using load_file_effect [of d fs f] by blast
  from Cons obtain es2 ls2 where
    rest: "\<And>st. folder_path (fst st) = d \<Longrightarrow>
            fold (load_file fs) names st = ((fst st)\<lparr>data := data (fst st) @ es2\<rparr>, snd st @ ls2)"
    and src2: "\<forall>e\<in>set es2. \<exists>c f row. f \<in> set names \<and> process_row c f row = Inr e"
    by blast
  have "\<forall>st. folder_path (fst st) = d \<longrightarrow>
          fold (load_file fs) (f # names) st
            = ((fst st)\<lparr>data := data (fst st) @ (es1 @ es2)\<rparr>, snd st @ (ls1 @ ls2))"
    by (simp add: one rest)
  moreover have "\<forall>e\<in>set (es1 @ es2). \<exists>c g row. g \<in> set (f # names) \<and> process_row c g row = Inr e"
    using src1 src2 by fastforce
  ultimately show ?case
    by blast
qed

lemma folder_path_fold_load_file:
  "folder_path (fst (fold (load_file fs) names st)) = folder_path (fst st)"
proof -
  from fold_load_file_effect [of "folder_path (fst st)" fs names]
  obtain es ls where
    "fold (load_file fs) names st = ((fst st)\<lparr>data := data (fst st) @ es\<rparr>, snd st @ ls)"
    by blast
  then show ?thesis by simp
qed

lemma data_fold_load_file_log:
  "data (fst (fold (load_file fs) names (a, l))) = data (fst (fold (load_file fs) names (a, l')))"
proof -
  from fold_load_file_effect [of "folder_path a" fs names]
  obtain es ls where
    eff: "\<And>st. folder_path (fst st) = folder_path a \<Longrightarrow>
       fold (load_file fs) names st = ((fst st)\<lparr>data := data (fst st) @ es\<rparr>, snd st @ ls)"
    by blast
  show ?thesis
    using eff [of "(a, l)"] eff [of "(a, l')"] by simp
qed

lemma load_file_cong:
  assumes "open_csv fs (path_join (folder_path (fst st)) f) = open_csv fs' (path_join (folder_path (fst st)) f)"
  shows "load_file fs f st = load_file fs' f st"
  using assms by (simp add: load_file_def)

lemma fold_load_file_cong:
  assumes "\<forall>f\<in>set names. open_csv fs (path_join (folder_path (fst st)) f)
             = open_csv fs' (path_join (folder_path (fst st)) f)"
  shows "fold (load_file fs) names st = fold (load_file fs') names st"
  using assms
proof (induction names arbitrary: st)
  case Nil
  show ?case by simp
next
  case (Cons f names)
  have one: "load_file fs f st = load_file fs' f st"
    using Cons.prems by (intro load_file_cong) simp
  have "folder_path (fst (load_file fs' f st)) = folder_path (fst st)"
    using folder_path_fold_load_file [of fs' "[f]" st] by simp
  with Cons.prems have "\<forall>g\<in>set names.
      open_csv fs (path_join (folder_path (fst (load_file fs' f st))) g)
        = open_csv fs' (path_join (folder_path (fst (load_file fs' f st))) g)"
    by simp
  from Cons.IH [OF this] one show ?case by simp
qed

lemma fold_load_file_all_fail:
  assumes "\<forall>p. open_csv fs p = Inl ex"
  shows "fold (load_file fs) names st = (fst st, snd st @ map (\<lambda>f. Error_open f ex) names)"
  using assms
  by (induction names arbitrary: st) (simp_all add: load_file_def)

lemma truediv_isnan:
  "truediv x y = Inr z \<Longrightarrow> isnan z \<longleftrightarrow> isnan x \<or> isnan y \<or> (isinf x \<and> isinf y)"
  by (cases x; cases y) (auto simp: isnan_def isinf_def round64_def Let_def split: if_splits)

section \<open>Evaluation of the examples\<close>

text \<open>
  The examples are evaluated by rewriting, bottom up: the floats of the cells, the columns
  of the header, the rows, and then the files.
\<close>

lemmas round64_eval = round64_def floor_log2_def bit_length.simps round_half_even_def
  power_int_def Let_def power_divide

lemma quotient_of_half: "quotient_of (1 / 2) = (1, 2)"
proof -
  have "quotient_of (Fract 1 2) = (1, 2)"
    by (simp add: quotient_of_Fract Rat.normalize_def)
  moreover have "Fract 1 2 = 1 / 2"
    by (simp add: Fract_of_int_quotient)
  ultimately show ?thesis by simp
qed

lemma round64_values:
  "round64 0 = Finite 0" "round64 1 = Finite 1" "round64 2 = Finite 2" "round64 3 = Finite 3"
  "round64 5 = Finite 5" "round64 10 = Finite 10" "round64 200 = Finite 200"
  "round64 400 = Finite 400" "round64 (1 / 2) = Finite (1 / 2)" "round64 12 = Finite 12"
  by (simp_all add: round64_eval quotient_of_half)

lemmas float_eval = py_float_def py_strip_def isspace_def ascii_strip_def ascii_isspace_def
  take_sign_def parse_number_def split_at_def is_digit_def digits_value_def ascii_lower_def
  ascii_def power_int_def round64_values

lemma float_texts:
  "py_float (py_strip (ascii ''10'')) = Inr (Finite 10)"
  "py_float (py_strip (ascii ''2'')) = Inr (Finite 2)"
  "py_float (py_strip (ascii ''5'')) = Inr (Finite 5)"
  "py_float (py_strip (ascii ''0'')) = Inr (Finite 0)"
  "py_float (py_strip (ascii ''1'')) = Inr (Finite 1)"
  "py_float (py_strip (ascii ''3'')) = Inr (Finite 3)"
  "py_float (py_strip (ascii ''200'')) = Inr (Finite 200)"
  "py_float (py_strip (ascii ''0.5'')) = Inr (Finite (1 / 2))"
  "py_float (py_strip (ascii ''abc'')) = Inl ValueError"
  "py_float (py_strip (ascii ''inf'')) = Inr PInf"
  "py_float (py_strip (ascii ''nan'')) = Inr NaN"
  by (simp_all add: float_eval)

text \<open>A price in Arabic-Indic digits (U+0661 U+0662) is read as 12.\<close>

lemma float_arabic_indic: "py_float [1633, 1634] = Inr (Finite 12)"
  by (simp add: float_eval to_decimal_def decimal_ranges_def)

lemma quotients:
  "truediv (Finite 10) (Finite 2) = Inr (Finite 5)"
  "truediv (Finite 10) (Finite 5) = Inr (Finite 2)"
  "truediv (Finite 10) (Finite 0) = Inl ZeroDivisionError"
  "truediv (Finite 200) (Finite (1 / 2)) = Inr (Finite 400)"
  "truediv PInf (Finite 1) = Inr PInf"
  "truediv NaN (Finite 1) = Inr NaN"
  "truediv (Finite 3) (Finite 1) = Inr (Finite 3)"
  "truediv (Finite 1) (Finite 1) = Inr (Finite 1)"
  by (simp_all add: round64_values)

lemmas lower_eval = py_lower_def lower_ucs4_def lower_ascii lower_cyrillic

lemmas header_eval = resolve_last header_title_def column_mapping_def lower_eval ascii_def

lemma header_title_columns:
  "resolve_columns header_title (ascii ''name'') = Some [1053, 1072, 1079, 1074, 1072, 1085, 1080, 1077]"
  "resolve_columns header_title (ascii ''price'') = Some [1062, 1077, 1085, 1072]"
  "resolve_columns header_title (ascii ''weight'') = Some [1060, 1072, 1089, 1086, 1074, 1082, 1072]"
  by (simp_all add: header_eval)

lemma header_title_complete: "missing_columns (resolve_columns header_title) = []"
  by (simp add: missing_columns_def required_columns_def header_title_columns)

lemma dict_row_title:
  "dict_row header_title [a, b, c] =
     [[1053, 1072, 1079, 1074, 1072, 1085, 1080, 1077] \<mapsto> Some a,
      [1062, 1077, 1085, 1072] \<mapsto> Some b,
      [1060, 1072, 1089, 1086, 1074, 1082, 1072] \<mapsto> Some c]"
  "dict_row header_title [a, b] =
     [[1053, 1072, 1079, 1074, 1072, 1085, 1080, 1077] \<mapsto> Some a,
      [1062, 1077, 1085, 1072] \<mapsto> Some b,
      [1060, 1072, 1089, 1086, 1074, 1082, 1072] \<mapsto> None]"
  by (simp_all add: dict_row_def header_title_def)

lemma strip_names:
  "py_strip (ascii ''A'') = ascii ''A''"
  "py_strip (ascii ''B'') = ascii ''B''"
  "py_strip (ascii ''C'') = ascii ''C''"
  "py_strip [1052, 1072, 1089, 1083, 1086] = [1052, 1072, 1089, 1083, 1086]"
  by (simp_all add: py_strip_def isspace_def ascii_def)

lemmas row_eval = process_row_def try_bind_def getitem_def cell_strip_def header_title_columns
  dict_row_title float_texts strip_names quotients round64_values

lemma process_row_a:
  "process_row (resolve_columns header_title) f (dict_row header_title row_a) = Inr (entry_a f)"
  by (simp add: row_eval row_a_def entry_a_def)

lemma process_row_c:
  "process_row (resolve_columns header_title) f (dict_row header_title row_c) = Inr (entry_c f)"
  by (simp add: row_eval row_c_def entry_c_def)

lemma process_row_zero:
  "process_row (resolve_columns header_title) f (dict_row header_title row_zero) = Inl ZeroDivisionError"
  by (simp add: row_eval row_zero_def)

lemma process_row_short:
  "process_row (resolve_columns header_title) f (dict_row header_title row_short) = Inl AttributeError"
  by (simp add: row_eval row_short_def)

lemma process_row_text:
  "process_row (resolve_columns header_title) f (dict_row header_title row_text) = Inl ValueError"
  by (simp add: row_eval row_text_def)

lemma rows_nonempty:
  "row_a \<noteq> []" "row_c \<noteq> []" "row_zero \<noteq> []" "row_short \<noteq> []" "row_text \<noteq> []"
  by (simp_all add: row_a_def row_c_def row_zero_def row_short_def row_text_def)

lemma price_csv_is_price_file: "price_files [ascii ''price.csv''] = [ascii ''price.csv'']"
  by (simp add: price_files_def ascii_def)

lemmas load_eval = load_prices_def dir_fs_def init_def price_csv_is_price_file load_file_def
  header_title_complete dict_rows_def rows_nonempty process_row_a process_row_c process_row_zero
  process_row_short process_row_text caught_by_row_handler_def

lemma process_row_more:
  "process_row (resolve_columns header_title) f (dict_row header_title row_butter) = Inr (entry_butter f)"
  "process_row (resolve_columns header_title) f (dict_row header_title row_inf) = Inr (entry_inf f)"
  "process_row (resolve_columns header_title) f (dict_row header_title row_nan) = Inr (entry_nan f)"
  "process_row (resolve_columns header_title) f (dict_row header_title row_three) = Inr (entry_three f)"
  "process_row (resolve_columns header_title) f (dict_row header_title row_one) = Inr (entry_one f)"
  by (simp_all add: row_eval row_butter_def entry_butter_def row_inf_def entry_inf_def row_nan_def
      entry_nan_def row_three_def entry_three_def row_one_def entry_one_def)

lemma rows_nonempty_more:
  "row_butter \<noteq> []" "row_inf \<noteq> []" "row_nan \<noteq> []" "row_three \<noteq> []" "row_one \<noteq> []"
  by (simp_all add: row_butter_def row_inf_def row_nan_def row_three_def row_one_def)

lemma load_butter:
  "load_prices butter_fs (init price_lists, [])
     = Inr (\<lparr>folder_path = price_lists, data = [entry_butter (ascii ''price.csv'')]\<rparr>, [])"
  by (simp add: load_eval butter_fs_def process_row_more rows_nonempty_more)

lemma load_inf_nan:
  "load_prices inf_nan_fs (init price_lists, [])
     = Inr (\<lparr>folder_path = price_lists,
              data = [entry_inf (ascii ''price.csv''), entry_nan (ascii ''price.csv'')]\<rparr>, [])"
  by (simp add: load_eval inf_nan_fs_def process_row_more rows_nonempty_more)

lemma load_nan_between:
  "load_prices nan_between_fs (init price_lists, [])
     = Inr (\<lparr>folder_path = price_lists,
              data = [entry_three (ascii ''price.csv''), entry_nan (ascii ''price.csv''),
                      entry_one (ascii ''price.csv'')]\<rparr>, [])"
  by (simp add: load_eval nan_between_fs_def process_row_more rows_nonempty_more)

lemma matches_empty: "matches [] e"
  by (simp add: matches_def py_lower_def str_in_empty)

lemma find_all_nan_catalog:
  assumes "sorted_contract srt"
  shows "fst (find_text srt nan_catalog [])
     = [entry_three (ascii ''price.csv''), entry_nan (ascii ''price.csv''),
        entry_one (ascii ''price.csv'')]"
proof -
  have "successively (\<lambda>a b. \<not> flt (price_per_kg b) (price_per_kg a))
          [entry_three (ascii ''price.csv''), entry_nan (ascii ''price.csv''),
           entry_one (ascii ''price.csv'')]"
    by (simp add: entry_three_def entry_nan_def entry_one_def)
  from sorted_contract_run [OF assms this] show ?thesis
    by (simp add: find_text_def nan_catalog_def matches_empty)
qed

lemma nan_between_not_ascending:
  "\<not> sorted_wrt (\<lambda>a b. fle (price_per_kg a) (price_per_kg b))
      [entry_three f, entry_nan f, entry_one f]"
  apply (simp add: entry_three_def entry_nan_def entry_one_def)
  apply (simp add: fle_def)
  done

lemma milk_matches:
  "matches [1084, 1086, 1083, 1086, 1082] entry_milk"
  "\<not> matches [1084, 1086, 1083, 1086, 1082] entry_milk_base"
  "matches [1084, 1086, 1083, 1086] entry_milk"
  "matches [1084, 1086, 1083, 1086] entry_milk_base"
  "\<not> matches [1084, 1086, 1083, 1086] (entry_nan f)"
  "\<not> matches [1089, 1099, 1088] entry_milk"
  "\<not> matches [1089, 1099, 1088] entry_milk_base"
  "\<not> matches [1089, 1099, 1088] (entry_nan f)"
  "matches [1169, 1072, 1085, 1086, 1082] entry_porch"
  by (simp_all add: matches_def lower_eval entry_milk_def entry_milk_base_def entry_nan_def
      entry_porch_def ascii_def)

lemma milk_keys:
  "price_per_kg entry_milk = Finite 60" "price_per_kg entry_milk_base = Finite 50"
  by (simp_all add: entry_milk_def entry_milk_base_def)


lemma find_milk_prefix:
  "fst (find_text stable_insertion_sort milk_nan_catalog [1084, 1086, 1083, 1086])
     = [entry_milk_base, entry_milk]"
  by (simp add: find_text_def milk_nan_catalog_def milk_matches stable_insertion_sort_def
      milk_keys)



text \<open>
  The lower case of U+0130 has two code points, and a capital sigma at the end of a word
  becomes the final sigma (ODOS), the one inside a word the sigma (SOS, whose last letter is
  final).
\<close>

lemma lower_special:
  "py_lower [304] = [105, 775]"
  "py_lower [927, 916, 927, 931] = [959, 948, 959, 962]"
  "py_lower [931, 927, 931] = [963, 959, 962]"
  by (simp_all add: py_lower_def lower_ucs4_def final_sigma_def to_lower_full_def lower_ranges_def
      is_cased_def cased_ranges_def is_case_ignorable_def case_ignorable_ranges_def)

lemmas fs_eval = dir_fs_def path_join_def price_lists_def ascii_def

lemma two_files_fs_eval:
  "listdir two_files_fs price_lists = Inr [ascii ''price_a.csv'', ascii ''price_b.csv'']"
  "open_csv two_files_fs (path_join price_lists (ascii ''price_a.csv'')) = Inr [header_no_weight, row_short]"
  "open_csv two_files_fs (path_join price_lists (ascii ''price_b.csv'')) = Inr [header_title, row_butter]"
  by (simp_all add: two_files_fs_def fs_eval)

lemma capital_name_fs_eval:
  "listdir (capital_name_fs rows) price_lists = Inr [ascii ''Price1.csv'', ascii ''price.csv'']"
  "open_csv (capital_name_fs rows) (path_join price_lists (ascii ''Price1.csv'')) = Inr rows"
  "open_csv (capital_name_fs rows) (path_join price_lists (ascii ''price.csv'')) = Inr [header_title, row_c]"
  by (simp_all add: capital_name_fs_def fs_eval)

lemma price_files_eval:
  "price_files [ascii ''price_a.csv'', ascii ''price_b.csv''] = [ascii ''price_a.csv'', ascii ''price_b.csv'']"
  "price_files [ascii ''Price1.csv'', ascii ''price.csv''] = [ascii ''price.csv'']"
  by (simp_all add: price_files_def ascii_def)

lemma header_no_weight_missing:
  "missing_columns (resolve_columns header_no_weight) = [ascii ''weight'']"
  by (simp add: missing_columns_def required_columns_def resolve_last
      header_no_weight_def column_mapping_def lower_eval ascii_def)

section \<open>The claims\<close>

text \<open>
  Claim C1 says that a row that fails normalization (a missing cell, a price or weight
  that is no number, a zero weight) is skipped alone and the rows after it are still
  loaded. The inner handler of \<^verbatim>\<open>load_prices\<close> catches \<^verbatim>\<open>KeyError\<close>,
  \<^verbatim>\<open>ValueError\<close> and \<^verbatim>\<open>TypeError\<close>. A zero weight raises \<^verbatim>\<open>ZeroDivisionError\<close> and
  a missing cell raises \<^verbatim>\<open>AttributeError\<close> (the cell is \<^verbatim>\<open>None\<close>, which has no
  \<^verbatim>\<open>strip\<close>): both pass the inner handler and reach the outer one, which logs an error
  "opening the file" and ends the file. In a file with the rows A, B, C, where B is the bad
  row, C is lost when B has weight zero or lacks a cell, and is loaded when B's price is no
  number.
\<close>

theorem zero_weight_row_ends_the_file:
  "load_prices zero_weight_fs (init price_lists, [])
     = Inr (\<lparr>folder_path = price_lists, data = [entry_a (ascii ''price.csv'')]\<rparr>,
            [Error_open (ascii ''price.csv'') ZeroDivisionError]) \<and>
   load_prices short_row_fs (init price_lists, [])
     = Inr (\<lparr>folder_path = price_lists, data = [entry_a (ascii ''price.csv'')]\<rparr>,
            [Error_open (ascii ''price.csv'') AttributeError]) \<and>
   load_prices text_row_fs (init price_lists, [])
     = Inr (\<lparr>folder_path = price_lists,
              data = [entry_a (ascii ''price.csv''), entry_c (ascii ''price.csv'')]\<rparr>,
            [Error_row (ascii ''price.csv'') ValueError])"
  by (simp add: load_eval zero_weight_fs_def short_row_fs_def text_row_fs_def)

text \<open>
  Claim C2. Every entry that \<^verbatim>\<open>load_prices\<close> appends to the catalog has as its
  \<open>price_per_kg\<close> the float quotient of its own \<open>price\<close> by its own \<open>weight\<close>.
\<close>

theorem unit_price_is_price_over_weight:
  assumes "load_prices fs st = Inr st'"
  shows "\<exists>new. data (fst st') = data (fst st) @ new \<and>
           (\<forall>e\<in>set new. truediv (price e) (weight e) = Inr (price_per_kg e))"
proof -
  from assms obtain names where
    st': "st' = fold (load_file fs) (price_files names) st"
    by (auto simp: load_prices_def split: sum.splits)
  from fold_load_file_effect [of "folder_path (fst st)" fs "price_files names"]
  obtain es ls where
    eff: "fold (load_file fs) (price_files names) st = ((fst st)\<lparr>data := data (fst st) @ es\<rparr>, snd st @ ls)"
    and src: "\<forall>e\<in>set es. \<exists>c f row. f \<in> set (price_files names) \<and> process_row c f row = Inr e"
    by blast
  have "\<forall>e\<in>set es. truediv (price e) (weight e) = Inr (price_per_kg e)"
    using src process_row_Inr(1) by blast
  with st' eff show ?thesis by simp
qed

text \<open>The butter row of the specification: 200 for 0.5 kg is 400 per kg.\<close>

theorem unit_price_witness:
  "load_prices butter_fs (init price_lists, [])
     = Inr (\<lparr>folder_path = price_lists, data = [entry_butter (ascii ''price.csv'')]\<rparr>, []) \<and>
   truediv (Finite 200) (Finite (1 / 2)) = Inr (Finite 400)"
proof -
  from unit_price_is_price_over_weight [OF load_butter]
  obtain new where
    "data \<lparr>folder_path = price_lists, data = [entry_butter (ascii ''price.csv'')]\<rparr>
       = data (init price_lists) @ new"
    and q: "\<forall>e\<in>set new. truediv (price e) (weight e) = Inr (price_per_kg e)"
    by auto
  then have "new = [entry_butter (ascii ''price.csv'')]"
    by (simp add: init_def)
  with q have "truediv (Finite 200) (Finite (1 / 2)) = Inr (Finite 400)"
    by (simp add: entry_butter_def)
  with load_butter show ?thesis by simp
qed



text \<open>
  Claim C4, as amended. When no entry that matches the query has a NaN \<open>price_per_kg\<close>,
  the result of \<^verbatim>\<open>find_text\<close> ascends by \<open>price_per_kg\<close> and entries with the same
  \<open>price_per_kg\<close> keep their catalog order. In every catalog the empty query returns
  every entry, and a query that matches nothing returns the empty list. \<open>srt\<close> is the
  builtin \<^verbatim>\<open>sorted\<close>.
\<close>

theorem find_text_sorted_and_stable:
  assumes "sorted_contract srt"
  shows "((\<forall>e\<in>set (data self). matches query e \<longrightarrow> \<not> isnan (price_per_kg e)) \<longrightarrow>
            sorted_wrt (\<lambda>a b. fle (price_per_kg a) (price_per_kg b)) (fst (find_text srt self query)) \<and>
            (\<forall>v. filter (\<lambda>e. price_per_kg e = v) (fst (find_text srt self query))
                  = filter (\<lambda>e. price_per_kg e = v) (filter (matches query) (data self)))) \<and>
         mset (fst (find_text srt self [])) = mset (data self) \<and>
         ((\<forall>e\<in>set (data self). \<not> matches query e) \<longrightarrow> fst (find_text srt self query) = [])"
proof (intro conjI impI)
  assume "\<forall>e\<in>set (data self). matches query e \<longrightarrow> \<not> isnan (price_per_kg e)"
  then have total: "\<forall>e\<in>set (filter (matches query) (data self)). price_per_kg e \<noteq> NaN"
    by (simp add: isnan_def)
  have same: "srt price_per_kg (filter (matches query) (data self))
         = stable_insertion_sort price_per_kg (filter (matches query) (data self))"
    using assms total by (rule sorted_contract_total)
  show "sorted_wrt (\<lambda>a b. fle (price_per_kg a) (price_per_kg b)) (fst (find_text srt self query))"
    using ascending_stable_insertion_sort [OF total] by (simp add: find_text_def same)
  show "\<forall>v. filter (\<lambda>e. price_per_kg e = v) (fst (find_text srt self query))
             = filter (\<lambda>e. price_per_kg e = v) (filter (matches query) (data self))"
    by (simp add: find_text_def same filter_key_stable_insertion_sort)
next
  have "filter (matches []) (data self) = data self"
    by (simp add: matches_def py_lower_def str_in_empty)
  then show "mset (fst (find_text srt self [])) = mset (data self)"
    by (simp add: find_text_def sorted_contract_mset [OF assms])
next
  assume "\<forall>e\<in>set (data self). \<not> matches query e"
  then have "filter (matches query) (data self) = []"
    by (simp add: filter_empty_conv)
  then show "fst (find_text srt self query) = []"
    by (simp add: find_text_def sorted_contract_Nil [OF assms])
qed

text \<open>
  Claim C4 as stated fails on a catalog with a NaN: the rows with the prices 3,
  \<^verbatim>\<open>nan\<close> and 1 (weight 1) are loaded in this order, no key is less than the key
  before it, and \<^verbatim>\<open>sorted\<close> returns them as they are, 3 before 1: this list is the
  result for every \<open>srt\<close> that meets the contract, and the insertion sort is one.
\<close>

theorem nan_unit_price_breaks_order:
  "load_prices nan_between_fs (init price_lists, []) = Inr (nan_catalog, []) \<and>
   (\<lambda>srt. fst (find_text srt nan_catalog [])) ` {srt. sorted_contract srt}
     = {[entry_three (ascii ''price.csv''), entry_nan (ascii ''price.csv''),
         entry_one (ascii ''price.csv'')]} \<and>
   flt (price_per_kg (entry_one (ascii ''price.csv''))) (price_per_kg (entry_three (ascii ''price.csv''))) \<and>
   \<not> sorted_wrt (\<lambda>a b. fle (price_per_kg a) (price_per_kg b))
       [entry_three (ascii ''price.csv''), entry_nan (ascii ''price.csv''),
        entry_one (ascii ''price.csv'')]"
proof (intro conjI)
  show "load_prices nan_between_fs (init price_lists, []) = Inr (nan_catalog, [])"
    using load_nan_between by (simp add: nan_catalog_def)
  have "stable_insertion_sort \<in> {srt. sorted_contract srt}"
    by (simp add: insertion_sort_contract)
  then show "(\<lambda>srt. fst (find_text srt nan_catalog [])) ` {srt. sorted_contract srt}
     = {[entry_three (ascii ''price.csv''), entry_nan (ascii ''price.csv''),
         entry_one (ascii ''price.csv'')]}"
    by (auto simp: find_all_nan_catalog image_iff)
  show "flt (price_per_kg (entry_one (ascii ''price.csv'')))
      (price_per_kg (entry_three (ascii ''price.csv'')))"
    by (simp add: entry_one_def entry_three_def)
  show "\<not> sorted_wrt (\<lambda>a b. fle (price_per_kg a) (price_per_kg b))
       [entry_three (ascii ''price.csv''), entry_nan (ascii ''price.csv''),
        entry_one (ascii ''price.csv'')]"
    by (rule nan_between_not_ascending)
qed

text \<open>
  A catalog with Moloko, an entry B whose \<open>price_per_kg\<close> is NaN, and Molochnaya osnova:
  the query molo matches the two milk entries and not B, and finds them with the cheaper
  one first; the query syr finds nothing.
\<close>

theorem find_text_sorted_witness:
  "fst (find_text stable_insertion_sort milk_nan_catalog [1084, 1086, 1083, 1086])
     = [entry_milk_base, entry_milk] \<and>
   sorted_wrt (\<lambda>a b. fle (price_per_kg a) (price_per_kg b)) [entry_milk_base, entry_milk] \<and>
   isnan (price_per_kg (entry_nan (ascii ''price.csv''))) \<and>
   fst (find_text stable_insertion_sort milk_nan_catalog [1089, 1099, 1088]) = []"
proof -
  have "\<forall>e\<in>set (data milk_nan_catalog).
          matches [1084, 1086, 1083, 1086] e \<longrightarrow> \<not> isnan (price_per_kg e)"
    by (simp add: milk_nan_catalog_def milk_matches milk_keys isnan_def)
  with find_text_sorted_and_stable [OF insertion_sort_contract, of milk_nan_catalog
      "[1084, 1086, 1083, 1086]"]
  have "sorted_wrt (\<lambda>a b. fle (price_per_kg a) (price_per_kg b))
          (fst (find_text stable_insertion_sort milk_nan_catalog [1084, 1086, 1083, 1086]))"
    by blast
  moreover have "\<forall>e\<in>set (data milk_nan_catalog). \<not> matches [1089, 1099, 1088] e"
    by (simp add: milk_nan_catalog_def milk_matches)
  with find_text_sorted_and_stable [OF insertion_sort_contract, of milk_nan_catalog
      "[1089, 1099, 1088]"]
  have "fst (find_text stable_insertion_sort milk_nan_catalog [1089, 1099, 1088]) = []"
    by blast
  moreover have "isnan (price_per_kg (entry_nan (ascii ''price.csv'')))"
    by (simp add: entry_nan_def isnan_def)
  ultimately show ?thesis
    by (simp add: find_milk_prefix)
qed

text \<open>
  Claim C5, as amended. No entry with a zero weight is appended, and each stored
  \<open>price_per_kg\<close> is the float quotient of the stored price by the stored non-zero
  weight. It is NaN exactly when the price or the weight is NaN or both are infinite:
  \<^verbatim>\<open>float\<close> accepts the texts \<^verbatim>\<open>inf\<close>, \<^verbatim>\<open>infinity\<close> and \<^verbatim>\<open>nan\<close>, so a stored
  \<open>price_per_kg\<close> can be infinite or NaN.
\<close>

theorem stored_weight_is_nonzero:
  assumes "load_prices fs st = Inr st'"
  shows "\<exists>new. data (fst st') = data (fst st) @ new \<and>
           (\<forall>e\<in>set new.
              \<not> is_zero (weight e) \<and>
              truediv (price e) (weight e) = Inr (price_per_kg e) \<and>
              (isnan (price_per_kg e) \<longleftrightarrow>
                 isnan (price e) \<or> isnan (weight e) \<or> (isinf (price e) \<and> isinf (weight e))))"
proof -
  from assms obtain names where
    st': "st' = fold (load_file fs) (price_files names) st"
    by (auto simp: load_prices_def split: sum.splits)
  from fold_load_file_effect [of "folder_path (fst st)" fs "price_files names"]
  obtain es ls where
    eff: "fold (load_file fs) (price_files names) st = ((fst st)\<lparr>data := data (fst st) @ es\<rparr>, snd st @ ls)"
    and src: "\<forall>e\<in>set es. \<exists>c f row. f \<in> set (price_files names) \<and> process_row c f row = Inr e"
    by blast
  have "\<not> is_zero (weight e) \<and>
        truediv (price e) (weight e) = Inr (price_per_kg e) \<and>
        (isnan (price_per_kg e) \<longleftrightarrow>
           isnan (price e) \<or> isnan (weight e) \<or> (isinf (price e) \<and> isinf (weight e)))"
    if "e \<in> set es" for e
  proof -
    from that src obtain c f row where "process_row c f row = Inr e" by blast
    then have q: "truediv (price e) (weight e) = Inr (price_per_kg e)"
      by (rule process_row_Inr(1))
    from q have "weight e \<noteq> Finite 0" by (rule truediv_Inr_nonzero)
    with q truediv_isnan [OF q] show ?thesis by (simp add: is_zero_def)
  qed
  with st' eff show ?thesis by simp
qed

text \<open>
  Claim C5 as stated fails: rows with the prices \<^verbatim>\<open>inf\<close> and \<^verbatim>\<open>nan\<close> are stored,
  with an infinite and a NaN \<open>price_per_kg\<close>.
\<close>

theorem infinite_and_nan_unit_price_stored:
  "load_prices inf_nan_fs (init price_lists, [])
     = Inr (\<lparr>folder_path = price_lists,
              data = [entry_inf (ascii ''price.csv''), entry_nan (ascii ''price.csv'')]\<rparr>, []) \<and>
   isinf (price_per_kg (entry_inf (ascii ''price.csv''))) \<and>
   isnan (price_per_kg (entry_nan (ascii ''price.csv'')))"
  using load_inf_nan by (simp add: isinf_def isnan_def entry_inf_def entry_nan_def)

text \<open>The same file satisfies the amended claim.\<close>

theorem stored_weight_witness:
  "load_prices inf_nan_fs (init price_lists, [])
     = Inr (\<lparr>folder_path = price_lists,
              data = [entry_inf (ascii ''price.csv''), entry_nan (ascii ''price.csv'')]\<rparr>, []) \<and>
   \<not> is_zero (weight (entry_inf (ascii ''price.csv''))) \<and>
   truediv PInf (Finite 1) = Inr PInf \<and>
   isnan (price_per_kg (entry_nan (ascii ''price.csv''))) \<and>
   isnan (price (entry_nan (ascii ''price.csv'')))"
proof -
  from stored_weight_is_nonzero [OF load_inf_nan]
  obtain new where
    "data \<lparr>folder_path = price_lists,
           data = [entry_inf (ascii ''price.csv''), entry_nan (ascii ''price.csv'')]\<rparr>
       = data (init price_lists) @ new"
    and q: "\<forall>e\<in>set new.
              \<not> is_zero (weight e) \<and>
              truediv (price e) (weight e) = Inr (price_per_kg e) \<and>
              (isnan (price_per_kg e) \<longleftrightarrow>
                 isnan (price e) \<or> isnan (weight e) \<or> (isinf (price e) \<and> isinf (weight e)))"
    by auto
  then have "new = [entry_inf (ascii ''price.csv''), entry_nan (ascii ''price.csv'')]"
    by (simp add: init_def)
  with q have "\<not> is_zero (weight (entry_inf (ascii ''price.csv''))) \<and>
      truediv PInf (Finite 1) = Inr PInf"
    by (simp add: entry_inf_def)
  moreover have "isnan (price_per_kg (entry_nan (ascii ''price.csv''))) \<and>
      isnan (price (entry_nan (ascii ''price.csv'')))"
    by (simp add: entry_nan_def isnan_def)
  ultimately show ?thesis using load_inf_nan by simp
qed

text \<open>
  Claim C6. A file whose header lacks a canonical column changes nothing but the log,
  which receives a warning with the missing columns; the files after it are loaded, and
  the catalog is the one the listing without that file gives.
\<close>

theorem file_without_required_column_skipped:
  assumes "listdir fs (folder_path (fst st)) = Inr names"
    and "price_files names = pre @ fname # post"
    and "open_csv fs (path_join (folder_path (fst st)) fname) = Inr (fieldnames # rows)"
    and "missing_columns (resolve_columns fieldnames) \<noteq> []"
  shows "let st1 = fold (load_file fs) pre st;
             warning = Warning_missing_columns fname (missing_columns (resolve_columns fieldnames))
         in load_file fs fname st1 = (fst st1, snd st1 @ [warning]) \<and>
            load_prices fs st = Inr (fold (load_file fs) post (fst st1, snd st1 @ [warning])) \<and>
            (\<exists>st'. load_prices fs st = Inr st' \<and>
                   data (fst st') = data (fst (fold (load_file fs) (pre @ post) st))) \<and>
            set (missing_columns (resolve_columns fieldnames))
              = {c \<in> set required_columns. resolve_columns fieldnames c = None}"
proof -
  define st1 where "st1 = fold (load_file fs) pre st"
  define warning where
    "warning = Warning_missing_columns fname (missing_columns (resolve_columns fieldnames))"
  have fp: "folder_path (fst st1) = folder_path (fst st)"
    by (simp add: st1_def folder_path_fold_load_file)
  have one: "load_file fs fname st1 = (fst st1, snd st1 @ [warning])"
    using assms(3,4) by (simp add: load_file_def fp warning_def)
  have all: "load_prices fs st = Inr (fold (load_file fs) post (fst st1, snd st1 @ [warning]))"
    using assms(1,2) one by (simp add: load_prices_def st1_def)
  have "data (fst (fold (load_file fs) post (fst st1, snd st1 @ [warning])))
          = data (fst (fold (load_file fs) post (fst st1, snd st1)))"
    by (rule data_fold_load_file_log)
  also have "\<dots> = data (fst (fold (load_file fs) (pre @ post) st))"
    by (simp add: st1_def)
  finally have same: "data (fst (fold (load_file fs) post (fst st1, snd st1 @ [warning])))
          = data (fst (fold (load_file fs) (pre @ post) st))" .
  have "set (missing_columns (resolve_columns fieldnames))
          = {c \<in> set required_columns. resolve_columns fieldnames c = None}"
    by (auto simp: missing_columns_def)
  with one all same show ?thesis
    by (simp add: st1_def warning_def Let_def)
qed

text \<open>
  A directory with a file without a weight column before the butter file: a warning for
  the first, the butter entry from the second.
\<close>

theorem file_without_weight_witness:
  "load_prices two_files_fs (init price_lists, [])
     = Inr (\<lparr>folder_path = price_lists, data = [entry_butter (ascii ''price_b.csv'')]\<rparr>,
            [Warning_missing_columns (ascii ''price_a.csv'') [ascii ''weight'']])"
proof -
  have l: "listdir two_files_fs (folder_path (fst (init price_lists, [])))
             = Inr [ascii ''price_a.csv'', ascii ''price_b.csv'']"
    by (simp add: init_def two_files_fs_eval)
  have p: "price_files [ascii ''price_a.csv'', ascii ''price_b.csv'']
             = [] @ ascii ''price_a.csv'' # [ascii ''price_b.csv'']"
    by (simp add: price_files_eval)
  have opn: "open_csv two_files_fs (path_join (folder_path (fst (init price_lists, []))) (ascii ''price_a.csv''))
             = Inr (header_no_weight # [row_short])"
    by (simp add: init_def two_files_fs_eval)
  have m: "missing_columns (resolve_columns header_no_weight) \<noteq> []"
    by (simp add: header_no_weight_missing)
  from file_without_required_column_skipped [OF l p opn m]
  have "load_prices two_files_fs (init price_lists, [])
          = Inr (fold (load_file two_files_fs) [ascii ''price_b.csv'']
                  (init price_lists, [Warning_missing_columns (ascii ''price_a.csv'') [ascii ''weight'']]))"
    by (simp add: Let_def header_no_weight_missing)
  then show ?thesis
    by (simp add: load_file_def init_def two_files_fs_eval header_title_complete dict_rows_def
        rows_nonempty_more process_row_more)
qed

text \<open>
  Claim C7. The column resolver looks each header up in lower case in the synonym table,
  ignores a header without an entry, and records for a canonical name the last header of
  the file's header list that maps to it.
\<close>

theorem resolve_columns_last_match:
  "resolve_columns fieldnames c =
     (case filter (\<lambda>h. column_mapping (py_lower h) = Some c) fieldnames of
        [] \<Rightarrow> None
      | ms \<Rightarrow> Some (last ms))"
  by (simp add: resolve_columns_def fold_map_column)

text \<open>
  TOVAR and Nazvanie both mean the name: the later header, Nazvanie, is recorded; the
  column \<^verbatim>\<open>id\<close> is ignored.
\<close>

theorem last_header_wins_witness:
  "resolve_columns header_twice (ascii ''name'') = Some [1053, 1072, 1079, 1074, 1072, 1085, 1080, 1077] \<and>
   resolve_columns header_twice (ascii ''price'') = Some [1062, 1077, 1085, 1072] \<and>
   resolve_columns header_twice (ascii ''id'') = None"
  using resolve_columns_last_match [of header_twice "ascii ''name''"]
    resolve_columns_last_match [of header_twice "ascii ''price''"]
    resolve_columns_last_match [of header_twice "ascii ''id''"]
  by (simp add: header_twice_def column_mapping_def py_lower_def lower_ucs4_def lower_ascii
      lower_cyrillic ascii_def)

text \<open>
  Claim C8. The files that \<^verbatim>\<open>load_prices\<close> opens are the names of the listing that
  contain \<^verbatim>\<open>price\<close> in this case (\<^verbatim>\<open>Price1.csv\<close> is not one of them): two file
  systems that agree on the listing and on these files give the same result.
\<close>

theorem only_price_files_are_read:
  assumes "listdir fs (folder_path (fst st)) = Inr names"
    and "listdir fs' (folder_path (fst st)) = Inr names"
    and "\<forall>f\<in>set (price_files names).
           open_csv fs (path_join (folder_path (fst st)) f)
             = open_csv fs' (path_join (folder_path (fst st)) f)"
  shows "load_prices fs st = load_prices fs' st \<and>
         load_prices fs st = Inr (fold (load_file fs) (price_files names) st) \<and>
         set (price_files names) = {f \<in> set names. \<exists>pre suf. f = pre @ ascii ''price'' @ suf} \<and>
         ascii ''Price1.csv'' \<notin> set (price_files names)"
proof -
  have "fold (load_file fs) (price_files names) st = fold (load_file fs') (price_files names) st"
    using assms(3) by (rule fold_load_file_cong)
  with assms(1,2) have "load_prices fs st = load_prices fs' st"
    by (simp add: load_prices_def)
  moreover have "load_prices fs st = Inr (fold (load_file fs) (price_files names) st)"
    using assms(1) by (simp add: load_prices_def)
  moreover have "set (price_files names) = {f \<in> set names. \<exists>pre suf. f = pre @ ascii ''price'' @ suf}"
    by (auto simp: price_files_def str_in_iff)
  moreover have "\<not> str_in (ascii ''price'') (ascii ''Price1.csv'')"
    by (simp add: ascii_def)
  then have "ascii ''Price1.csv'' \<notin> set (price_files names)"
    by (simp add: price_files_def)
  ultimately show ?thesis by blast
qed

text \<open>
  \<^verbatim>\<open>Price1.csv\<close> is not read: the result is the same whatever it contains.
\<close>

theorem only_price_files_witness:
  "load_prices (capital_name_fs [header_title, row_a]) (init price_lists, [])
     = load_prices (capital_name_fs []) (init price_lists, []) \<and>
   open_csv (capital_name_fs [header_title, row_a]) (path_join price_lists (ascii ''Price1.csv''))
     \<noteq> open_csv (capital_name_fs []) (path_join price_lists (ascii ''Price1.csv''))"
proof -
  have "load_prices (capital_name_fs [header_title, row_a]) (init price_lists, [])
          = load_prices (capital_name_fs []) (init price_lists, [])"
    using only_price_files_are_read [of "capital_name_fs [header_title, row_a]"
        "(init price_lists, [])" "[ascii ''Price1.csv'', ascii ''price.csv'']" "capital_name_fs []"]
    by (simp add: init_def capital_name_fs_eval price_files_eval)
  then show ?thesis
    by (simp add: capital_name_fs_eval)
qed

text \<open>
  Claim C9. \<^verbatim>\<open>find_text\<close> leaves the analyzer, and so the catalog, as it was; the
  same query asked again returns the same list; and so does any sequence of queries
  (whatever the builtin \<^verbatim>\<open>sorted\<close>, the parameter \<open>srt\<close>, returns).
\<close>

theorem find_text_leaves_catalog:
  "snd (find_text srt self query) = self \<and>
   fst (find_text srt (snd (find_text srt self query)) query) = fst (find_text srt self query) \<and>
   fold (\<lambda>q a. snd (find_text srt a q)) queries self = self"
proof -
  have "fold (\<lambda>q a. snd (find_text srt a q)) queries self = self"
    by (induction queries) (simp_all add: find_text_def)
  then show ?thesis by (simp add: find_text_def)
qed

text \<open>
  Claim C10. An exception of the directory listing leaves \<^verbatim>\<open>load_prices\<close>; when the
  listing succeeds the method returns, also when every file fails to open, which only
  adds to the log.
\<close>

theorem listdir_failure_propagates:
  "(listdir fs (folder_path (fst st)) = Inl ex \<longrightarrow> load_prices fs st = Inl ex) \<and>
   (listdir fs (folder_path (fst st)) = Inr names \<longrightarrow>
      load_prices fs st = Inr (fold (load_file fs) (price_files names) st)) \<and>
   (listdir fs (folder_path (fst st)) = Inr names \<and> (\<forall>p. open_csv fs p = Inl ex) \<longrightarrow>
      load_prices fs st = Inr (fst st, snd st @ map (\<lambda>f. Error_open f ex) (price_files names)))"
  by (simp add: load_prices_def fold_load_file_all_fail)

text \<open>Without the directory, \<^verbatim>\<open>load_prices\<close> raises.\<close>

theorem listdir_failure_witness:
  "load_prices missing_dir_fs (init price_lists, []) = Inl OSError"
  using listdir_failure_propagates [of missing_dir_fs "(init price_lists, [])" OSError]
  by (simp add: missing_dir_fs_def)

end
